theory Spec2Isabelle
  imports Complex_Main
begin

section \<open>Python values shared by the two programs\<close>

text \<open>
  A Python \<open>str\<close> is modelled as a \<open>string\<close> holding its UTF-8 bytes: the ASCII
  literals of the sources are written as they are, the Chinese literals byte by byte.
  The encoding is injective, so equality of strings is equality of the Python strings.

  A Python \<open>float\<close> is a finite number, an infinity or a NaN. Finite values are kept
  as exact rationals: the rounding of binary64 is not modelled, the special values are.
\<close>

datatype pyfloat = Finite rat | PosInf | NegInf | NaN

fun fneg :: "pyfloat \<Rightarrow> pyfloat" where
  "fneg (Finite q) = Finite (- q)"
| "fneg PosInf = NegInf"
| "fneg NegInf = PosInf"
| "fneg NaN = NaN"

text \<open>\<open>n * x\<close> for a Python int \<open>n\<close> and a float \<open>x\<close> (IEEE 754: \<open>0 * inf\<close> is NaN).\<close>

fun int_times_float :: "int \<Rightarrow> pyfloat \<Rightarrow> pyfloat" where
  "int_times_float n (Finite q) = Finite (of_int n * q)"
| "int_times_float n PosInf = (if 0 < n then PosInf else if n < 0 then NegInf else NaN)"
| "int_times_float n NegInf = (if 0 < n then NegInf else if n < 0 then PosInf else NaN)"
| "int_times_float n NaN = NaN"

subsection \<open>The builtin \<open>float(str)\<close>\<close>

text \<open>
  \<open>float\<close> checks and removes the underscores that group digits, strips white space,
  reads an optional sign and then either \<open>inf\<close>, \<open>infinity\<close>, \<open>nan\<close> (in any case) or a
  decimal numeral \<open>digits [. digits] [e [sign] digits]\<close> with at least one digit in the
  mantissa. Anything else raises ValueError, which is the result \<open>None\<close> here. The model
  reads ASCII text; the non-ASCII digits and spaces that Python also accepts are outside it.
  The value of a numeral is its exact value (a numeral beyond the range of binary64, which
  Python rounds to an infinity or to zero, keeps its value here).
\<close>

definition is_digit :: "char \<Rightarrow> bool" where
  "is_digit c = (48 \<le> (of_char c :: nat) \<and> (of_char c :: nat) \<le> 57)"

definition digit_value :: "char \<Rightarrow> nat" where
  "digit_value c = (of_char c :: nat) - 48"

definition is_space :: "char \<Rightarrow> bool" where
  "is_space c = (let n = (of_char c :: nat) in n = 32 \<or> (9 \<le> n \<and> n \<le> 13) \<or> (28 \<le> n \<and> n \<le> 31))"

definition lower_chr :: "char \<Rightarrow> char" where
  "lower_chr c = (let n = (of_char c :: nat) in if 65 \<le> n \<and> n \<le> 90 then char_of (n + 32) else c)"

definition strip :: "string \<Rightarrow> string" where
  "strip s = rev (dropWhile is_space (rev (dropWhile is_space s)))"

text \<open>
  The underscore check of CPython: an underscore is allowed only directly after a digit
  and directly before a digit. \<open>prev\<close> is the character read last.
\<close>

fun remove_underscores :: "char \<Rightarrow> string \<Rightarrow> string option" where
  "remove_underscores prev [] = (if prev = CHR ''_'' then None else Some [])"
| "remove_underscores prev (p # ps) =
     (if p = CHR ''_'' then
        (if is_digit prev then remove_underscores p ps else None)
      else if prev = CHR ''_'' \<and> \<not> is_digit p then None
      else map_option ((#) p) (remove_underscores p ps))"

fun digits_to_nat :: "nat \<Rightarrow> string \<Rightarrow> nat" where
  "digits_to_nat acc [] = acc"
| "digits_to_nat acc (c # cs) = digits_to_nat (10 * acc + digit_value c) cs"

definition scale10 :: "rat \<Rightarrow> int \<Rightarrow> rat" where
  "scale10 m e = (if 0 \<le> e then m * 10 ^ nat e else m / 10 ^ nat (- e))"

definition split_sign :: "string \<Rightarrow> bool \<times> string" where
  "split_sign s =
     (case s of
        [] \<Rightarrow> (False, [])
      | c # r \<Rightarrow> if c = CHR ''-'' then (True, r) else if c = CHR ''+'' then (False, r) else (False, s))"

definition parse_exponent :: "string \<Rightarrow> int option" where
  "parse_exponent s =
     (case s of
        [] \<Rightarrow> Some 0
      | c # r \<Rightarrow>
          if c = CHR ''e'' \<or> c = CHR ''E'' then
            (let (neg, ds) = split_sign r in
             if ds \<noteq> [] \<and> list_all is_digit ds then
               Some (if neg then - int (digits_to_nat 0 ds) else int (digits_to_nat 0 ds))
             else None)
          else None)"

definition parse_decimal :: "string \<Rightarrow> rat option" where
  "parse_decimal s =
     (let ip = takeWhile is_digit s;
          r1 = dropWhile is_digit s;
          (fp, r2) = (case r1 of
                        [] \<Rightarrow> ([], [])
                      | c # r \<Rightarrow> if c = CHR ''.'' then (takeWhile is_digit r, dropWhile is_digit r)
                                else ([], r1))
      in if ip = [] \<and> fp = [] then None
         else
           (case parse_exponent r2 of
              None \<Rightarrow> None
            | Some e \<Rightarrow> Some (scale10 (of_nat (digits_to_nat 0 (ip @ fp))) (e - int (length fp)))))"

definition parse_inf_or_nan :: "string \<Rightarrow> pyfloat option" where
  "parse_inf_or_nan s =
     (let l = map lower_chr s in
      if l = ''inf'' \<or> l = ''infinity'' then Some PosInf
      else if l = ''nan'' then Some NaN
      else None)"

definition py_float :: "string \<Rightarrow> pyfloat option" where
  "py_float s =
     (case remove_underscores (CHR 0x00) s of
        None \<Rightarrow> None
      | Some t \<Rightarrow>
          (let (neg, u) = split_sign (strip t) in
           case parse_inf_or_nan u of
             Some v \<Rightarrow> Some (if neg then fneg v else v)
           | None \<Rightarrow> map_option (\<lambda>q. Finite (if neg then - q else q)) (parse_decimal u)))"


subsection \<open>Formatting integers, dictionaries\<close>

text \<open>\<open>str(n)\<close> of a Python int, as an f-string prints it.\<close>

fun str_nat :: "nat \<Rightarrow> string" where
  "str_nat n = (if n < 10 then [char_of (48 + n)] else str_nat (n div 10) @ [char_of (48 + n mod 10)])"

declare str_nat.simps [simp del]

definition str_int :: "int \<Rightarrow> string" where
  "str_int i = (if i < 0 then CHR ''-'' # str_nat (nat (- i)) else str_nat (nat i))"

text \<open>\<open>sep.join(parts)\<close>.\<close>

fun join :: "string \<Rightarrow> string list \<Rightarrow> string" where
  "join sep [] = []"
| "join sep [x] = x"
| "join sep (x # y # ys) = x @ sep @ join sep (y # ys)"

text \<open>
  A Python dict keeps its keys in insertion order, and an assignment to a key that is
  present keeps the key's place: an association list with distinct keys.
\<close>

type_synonym ('k, 'v) dict = "('k \<times> 'v) list"

fun dict_set :: "'k \<Rightarrow> 'v \<Rightarrow> ('k, 'v) dict \<Rightarrow> ('k, 'v) dict" where
  "dict_set k v [] = [(k, v)]"
| "dict_set k v ((k', v') # d) = (if k' = k then (k, v) # d else (k', v') # dict_set k v d)"

definition dict_values :: "('k, 'v) dict \<Rightarrow> 'v list" where
  "dict_values d = map snd d"

subsection \<open>The detection model\<close>

text \<open>
  The YOLO model is a black box. \<open>names\<close> is its class vocabulary, defined on every
  class index it reports. A call \<open>model(img, conf=...)\<close> either raises (\<open>Inl\<close> with
  the text of the exception) or returns the result for the image: the annotated image
  that \<open>results[0].plot()\<close> draws and the boxes of \<open>results[0].boxes\<close>, each with its
  class index and its confidence.
\<close>

type_synonym image = "nat list"

record box =
  cls :: nat
  conf :: rat

record results =
  plot :: image
  boxes :: "box list"

record yolo =
  names :: "nat \<Rightarrow> string"
  predict :: "rat option \<Rightarrow> image option \<Rightarrow> string + results"

section \<open>The pesticide recommendation program\<close>

subsection \<open>String literals of the source\<close>

definition zh_green_leafhopper :: string where \<comment> \<open>LABEL_MAP: green leafhopper\<close>
  "zh_green_leafhopper =
     [CHR 0xE7, CHR 0xBB, CHR 0xBF, CHR 0xE8, CHR 0x89, CHR 0xB2, CHR 0xE5, CHR 0x8F,
      CHR 0xB6, CHR 0xE8, CHR 0x9D, CHR 0x89]"

definition zh_rice_bug :: string where \<comment> \<open>LABEL_MAP: rice bug\<close>
  "zh_rice_bug =
     [CHR 0xE7, CHR 0xA8, CHR 0xBB, CHR 0xE8, CHR 0x9D, CHR 0xBD]"

definition zh_leaf_folder :: string where \<comment> \<open>LABEL_MAP: leaf folder\<close>
  "zh_leaf_folder =
     [CHR 0xE5, CHR 0x8D, CHR 0xB7, CHR 0xE5, CHR 0x8F, CHR 0xB6, CHR 0xE8, CHR 0x99,
      CHR 0xAB]"

definition zh_stem_borer :: string where \<comment> \<open>LABEL_MAP: stem borer\<close>
  "zh_stem_borer =
     [CHR 0xE8, CHR 0x8C, CHR 0x8E, CHR 0xE8, CHR 0x9E, CHR 0x9F]"

definition zh_whorl_maggot :: string where \<comment> \<open>LABEL_MAP: whorl maggot\<close>
  "zh_whorl_maggot =
     [CHR 0xE5, CHR 0x8F, CHR 0xB6, CHR 0xE9, CHR 0x9E, CHR 0x98, CHR 0xE8, CHR 0x9B,
      CHR 0x86]"

definition zh_imidacloprid :: string where \<comment> \<open>PESTICIDE_DB: imidacloprid\<close>
  "zh_imidacloprid =
     [CHR 0xE5, CHR 0x90, CHR 0xA1, CHR 0xE8, CHR 0x99, CHR 0xAB, CHR 0xE5, CHR 0x95,
      CHR 0x89]"

definition zh_cypermethrin :: string where \<comment> \<open>PESTICIDE_DB: cypermethrin\<close>
  "zh_cypermethrin =
     [CHR 0xE6, CHR 0xB0, CHR 0xAF, CHR 0xE6, CHR 0xB0, CHR 0xB0, CHR 0xE8, CHR 0x8F,
      CHR 0x8A, CHR 0xE9, CHR 0x85, CHR 0xAF]"

definition zh_emamectin :: string where \<comment> \<open>PESTICIDE_DB: emamectin benzoate\<close>
  "zh_emamectin =
     [CHR 0xE7, CHR 0x94, CHR 0xB2, CHR 0xE7, CHR 0xBB, CHR 0xB4, CHR 0xE7, CHR 0x9B,
      CHR 0x90]"

definition zh_chlorantraniliprole :: string where \<comment> \<open>PESTICIDE_DB: chlorantraniliprole\<close>
  "zh_chlorantraniliprole =
     [CHR 0xE6, CHR 0xB0, CHR 0xAF, CHR 0xE8, CHR 0x99, CHR 0xAB, CHR 0xE8, CHR 0x8B,
      CHR 0xAF, CHR 0xE7, CHR 0x94, CHR 0xB2, CHR 0xE9, CHR 0x85, CHR 0xB0, CHR 0xE8,
      CHR 0x83, CHR 0xBA]"

definition zh_pymetrozine :: string where \<comment> \<open>PESTICIDE_DB: pymetrozine\<close>
  "zh_pymetrozine =
     [CHR 0xE5, CHR 0x90, CHR 0xA1, CHR 0xE8, CHR 0x9A, CHR 0x9C, CHR 0xE9, CHR 0x85,
      CHR 0xAE]"

definition zh_unknown :: string where \<comment> \<open>the fallback pesticide name: unknown\<close>
  "zh_unknown =
     [CHR 0xE6, CHR 0x9C, CHR 0xAA, CHR 0xE7, CHR 0x9F, CHR 0xA5]"

definition zh_no_pests :: string where \<comment> \<open>no pests detected\<close>
  "zh_no_pests =
     [CHR 0xE6, CHR 0x9C, CHR 0xAA, CHR 0xE6, CHR 0xA3, CHR 0x80, CHR 0xE6, CHR 0xB5,
      CHR 0x8B, CHR 0xE5, CHR 0x88, CHR 0xB0, CHR 0xE5, CHR 0xAE, CHR 0xB3, CHR 0xE8,
      CHR 0x99, CHR 0xAB]"

definition zh_result_placeholder :: string where \<comment> \<open>detection results and the recommended pesticide will be shown here\<close>
  "zh_result_placeholder =
     [CHR 0xE6, CHR 0xA3, CHR 0x80, CHR 0xE6, CHR 0xB5, CHR 0x8B, CHR 0xE7, CHR 0xBB,
      CHR 0x93, CHR 0xE6, CHR 0x9E, CHR 0x9C, CHR 0xE4, CHR 0xB8, CHR 0x8E, CHR 0xE6,
      CHR 0x8E, CHR 0xA8, CHR 0xE8, CHR 0x8D, CHR 0x90, CHR 0xE5, CHR 0x86, CHR 0x9C,
      CHR 0xE8, CHR 0x8D, CHR 0xAF, CHR 0xE5, CHR 0xB0, CHR 0x86, CHR 0xE6, CHR 0x98,
      CHR 0xBE, CHR 0xE7, CHR 0xA4, CHR 0xBA, CHR 0xE5, CHR 0x9C, CHR 0xA8, CHR 0xE6,
      CHR 0xAD, CHR 0xA4]"

definition zh_lbracket :: string where \<comment> \<open>opening bracket of a heading\<close>
  "zh_lbracket =
     [CHR 0xE3, CHR 0x80, CHR 0x90]"

definition zh_rbracket :: string where \<comment> \<open>closing bracket of a heading\<close>
  "zh_rbracket =
     [CHR 0xE3, CHR 0x80, CHR 0x91]"

definition zh_recommended :: string where \<comment> \<open>recommended pesticide:\<close>
  "zh_recommended =
     [CHR 0xE6, CHR 0x8E, CHR 0xA8, CHR 0xE8, CHR 0x8D, CHR 0x90, CHR 0xE5, CHR 0x86,
      CHR 0x9C, CHR 0xE8, CHR 0x8D, CHR 0xAF, CHR 0xEF, CHR 0xBC, CHR 0x9A]"

definition zh_base_dosage :: string where \<comment> \<open>base dosage:\<close>
  "zh_base_dosage =
     [CHR 0xE5, CHR 0x9F, CHR 0xBA, CHR 0xE7, CHR 0xA1, CHR 0x80, CHR 0xE7, CHR 0x94,
      CHR 0xA8, CHR 0xE9, CHR 0x87, CHR 0x8F, CHR 0xEF, CHR 0xBC, CHR 0x9A]"

definition zh_ml_per_mu :: string where \<comment> \<open>ml per mu\<close>
  "zh_ml_per_mu =
     [CHR 0x6D, CHR 0x6C, CHR 0x2F, CHR 0xE4, CHR 0xBA, CHR 0xA9]"

definition zh_total_dosage :: string where \<comment> \<open>total dosage:\<close>
  "zh_total_dosage =
     [CHR 0xE6, CHR 0x80, CHR 0xBB, CHR 0xE7, CHR 0x94, CHR 0xA8, CHR 0xE9, CHR 0x87,
      CHR 0x8F, CHR 0xEF, CHR 0xBC, CHR 0x9A]"

definition zh_detection_done :: string where \<comment> \<open>detection finished\<close>
  "zh_detection_done =
     [CHR 0xE6, CHR 0xA3, CHR 0x80, CHR 0xE6, CHR 0xB5, CHR 0x8B, CHR 0xE5, CHR 0xAE,
      CHR 0x8C, CHR 0xE6, CHR 0x88, CHR 0x90]"

definition zh_error :: string where \<comment> \<open>error\<close>
  "zh_error =
     [CHR 0xE9, CHR 0x94, CHR 0x99, CHR 0xE8, CHR 0xAF, CHR 0xAF]"

definition zh_detection_failed :: string where \<comment> \<open>detection failed:\<close>
  "zh_detection_failed =
     [CHR 0xE6, CHR 0xA3, CHR 0x80, CHR 0xE6, CHR 0xB5, CHR 0x8B, CHR 0xE5, CHR 0xA4,
      CHR 0xB1, CHR 0xE8, CHR 0xB4, CHR 0xA5, CHR 0xEF, CHR 0xBC, CHR 0x9A]"


subsection \<open>Reference tables\<close>

definition LABEL_MAP :: "string \<rightharpoonup> string" where
  "LABEL_MAP = map_of
     [(''green-leafhopper'', zh_green_leafhopper),
      (''rice-bug'', zh_rice_bug),
      (''leaf-folder'', zh_leaf_folder),
      (''stem-borer'', zh_stem_borer),
      (''whorl-maggot'', zh_whorl_maggot)]"

definition PESTICIDE_DB :: "string \<rightharpoonup> string \<times> int" where
  "PESTICIDE_DB = map_of
     [(''green-leafhopper'', (zh_imidacloprid, 30)),
      (''rice-bug'', (zh_cypermethrin, 50)),
      (''leaf-folder'', (zh_emamectin, 40)),
      (''stem-borer'', (zh_chlorantraniliprole, 60)),
      (''whorl-maggot'', (zh_pymetrozine, 35))]"

subsection \<open>State of \<open>SimplePesticideApp\<close>\<close>

record pest_item =
  english :: string
  chinese :: string
  pesticide :: string
  base_dosage :: int
  count :: nat

text \<open>
  The fields of the window that the operations below read or write. \<open>area_input\<close> is
  the text of the line edit, \<open>result_label\<close> and \<open>status_bar\<close> the texts shown,
  \<open>image_label\<close> the image shown, \<open>critical_boxes\<close> the error dialogs raised so far
  (title and text) and \<open>inferences\<close> the images handed to the model so far.
\<close>

record pest_app =
  model :: "yolo option"
  current_img :: "image option"
  pest_data :: "pest_item list"
  area_input :: string
  result_label :: string
  image_label :: "image option"
  status_bar :: string
  critical_boxes :: "(string \<times> string) list"
  inferences :: "image list"

definition SimplePesticideApp_init :: pest_app where
  "SimplePesticideApp_init =
     \<lparr>model = None, current_img = None, pest_data = [], area_input = [],
      result_label = zh_result_placeholder, image_label = None, status_bar = [],
      critical_boxes = [], inferences = []\<rparr>"

subsection \<open>\<open>update_recommendation\<close>\<close>

text \<open>
  Lines 165 to 169: the area is \<open>float(area_text)\<close> when the text is not empty and
  \<open>float\<close> does not raise, and 1 otherwise.
\<close>

definition area_of_text :: "string \<Rightarrow> pyfloat" where
  "area_of_text area_text =
     (if area_text \<noteq> [] then
        (case py_float area_text of Some v \<Rightarrow> v | None \<Rightarrow> Finite 1)
      else Finite 1)"

text \<open>Line 180: \<open>total_dosage = base_dosage * area\<close>.\<close>

definition total_dosage :: "pest_item \<Rightarrow> pyfloat \<Rightarrow> pyfloat" where
  "total_dosage item area = int_times_float (base_dosage item) area"

text \<open>
  Lines 177 to 185, the five lines of one item. \<open>fmt1\<close> stands for the format
  \<open>:.1f\<close> of a float, which the model takes as given.
\<close>

definition item_lines :: "(pyfloat \<Rightarrow> string) \<Rightarrow> pyfloat \<Rightarrow> pest_item \<Rightarrow> string list" where
  "item_lines fmt1 area item =
     [zh_lbracket @ chinese item @ zh_rbracket,
      zh_recommended @ pesticide item,
      zh_base_dosage @ str_int (base_dosage item) @ zh_ml_per_mu,
      zh_total_dosage @ fmt1 (total_dosage item area) @ ''ml'',
      replicate 20 (CHR ''-'')]"

definition update_recommendation :: "(pyfloat \<Rightarrow> string) \<Rightarrow> pest_app \<Rightarrow> pest_app" where
  "update_recommendation fmt1 st =
     (let area = area_of_text (area_input st) in
      if pest_data st = [] then st\<lparr>result_label := zh_no_pests\<rparr>
      else st\<lparr>result_label :=
                join [CHR 0x0A] (concat (map (item_lines fmt1 area) (pest_data st)))\<rparr>)"

text \<open>
  Line 62: the signal \<open>textChanged\<close> of the line edit is connected to
  \<open>update_recommendation\<close>, so a change of the text runs it on the new text.
\<close>

definition area_text_changed :: "(pyfloat \<Rightarrow> string) \<Rightarrow> string \<Rightarrow> pest_app \<Rightarrow> pest_app" where
  "area_text_changed fmt1 new_text st = update_recommendation fmt1 (st\<lparr>area_input := new_text\<rparr>)"

subsection \<open>\<open>run_detection\<close>\<close>

text \<open>Lines 136 to 146: the record appended for one box.\<close>

definition new_item :: "string \<Rightarrow> pest_item" where
  "new_item eng_label =
     (let chi_name = (case LABEL_MAP eng_label of Some n \<Rightarrow> n | None \<Rightarrow> eng_label);
          (pesticide_name, dosage) =
            (case PESTICIDE_DB eng_label of Some pd \<Rightarrow> pd | None \<Rightarrow> (zh_unknown, 0))
      in \<lparr>english = eng_label, chinese = chi_name, pesticide = pesticide_name,
          base_dosage = dosage, count = 1\<rparr>)"

text \<open>Lines 135 to 146: one record per box, in the order of the boxes.\<close>

fun collect_items :: "(nat \<Rightarrow> string) \<Rightarrow> box list \<Rightarrow> pest_item list \<Rightarrow> pest_item list" where
  "collect_items nm [] data = data"
| "collect_items nm (b # bs) data = collect_items nm bs (data @ [new_item (nm (cls b))])"

text \<open>
  Lines 149 to 155: records of the same label are merged in \<open>pest_dict\<close>; the first one
  is copied in, each later one adds 1 to the count of the copy.
\<close>

fun merge_items :: "pest_item list \<Rightarrow> (string, pest_item) dict \<Rightarrow> (string, pest_item) dict" where
  "merge_items [] pest_dict = pest_dict"
| "merge_items (item # items) pest_dict =
     (let key = english item in
      case map_of pest_dict key of
        Some r \<Rightarrow> merge_items items (dict_set key (r\<lparr>count := count r + 1\<rparr>) pest_dict)
      | None \<Rightarrow> merge_items items (dict_set key item pest_dict))"

text \<open>
  Lines 122 to 162. Without a model or an image nothing happens. An exception of the
  model call is caught and shown in a dialog; it is raised before the old records are
  cleared, so they stay.
\<close>

definition run_detection :: "(pyfloat \<Rightarrow> string) \<Rightarrow> pest_app \<Rightarrow> pest_app" where
  "run_detection fmt1 st =
     (case (model st, current_img st) of
        (Some m, Some img) \<Rightarrow>
          (case predict m None (Some img) of
             Inl e \<Rightarrow>
               st\<lparr>inferences := inferences st @ [img],
                  critical_boxes := critical_boxes st @ [(zh_error, zh_detection_failed @ e)]\<rparr>
           | Inr res \<Rightarrow>
               (let st1 = st\<lparr>inferences := inferences st @ [img],
                             image_label := Some (plot res)\<rparr>;
                    data = collect_items (names m) (boxes res) [];
                    st2 = st1\<lparr>pest_data := dict_values (merge_items data [])\<rparr>
                in (update_recommendation fmt1 st2)\<lparr>status_bar := zh_detection_done\<rparr>))
      | _ \<Rightarrow> st)"


section \<open>The streaming detection program\<close>

subsection \<open>String literals of the source\<close>

definition zh_warning :: string where \<comment> \<open>warning\<close>
  "zh_warning =
     [CHR 0xE8, CHR 0xAD, CHR 0xA6, CHR 0xE5, CHR 0x91, CHR 0x8A]"

definition zh_load_model_first :: string where \<comment> \<open>please load a model first\<close>
  "zh_load_model_first =
     [CHR 0xE8, CHR 0xAF, CHR 0xB7, CHR 0xE5, CHR 0x85, CHR 0x88, CHR 0xE5, CHR 0x8A,
      CHR 0xA0, CHR 0xE8, CHR 0xBD, CHR 0xBD, CHR 0xE6, CHR 0xA8, CHR 0xA1, CHR 0xE5,
      CHR 0x9E, CHR 0x8B, CHR 0xEF, CHR 0xBC, CHR 0x81]"

definition zh_detecting :: string where \<comment> \<open>detection in progress\<close>
  "zh_detecting =
     [CHR 0xE6, CHR 0xA3, CHR 0x80, CHR 0xE6, CHR 0xB5, CHR 0x8B, CHR 0xE8, CHR 0xBF,
      CHR 0x9B, CHR 0xE8, CHR 0xA1, CHR 0x8C, CHR 0xE4, CHR 0xB8, CHR 0xAD]"

definition zh_choose_valid_image :: string where \<comment> \<open>please choose a valid image file\<close>
  "zh_choose_valid_image =
     [CHR 0xE8, CHR 0xAF, CHR 0xB7, CHR 0xE9, CHR 0x80, CHR 0x89, CHR 0xE6, CHR 0x8B,
      CHR 0xA9, CHR 0xE6, CHR 0x9C, CHR 0x89, CHR 0xE6, CHR 0x95, CHR 0x88, CHR 0xE7,
      CHR 0x9A, CHR 0x84, CHR 0xE5, CHR 0x9B, CHR 0xBE, CHR 0xE7, CHR 0x89, CHR 0x87,
      CHR 0xE6, CHR 0x96, CHR 0x87, CHR 0xE4, CHR 0xBB, CHR 0xB6, CHR 0xEF, CHR 0xBC,
      CHR 0x81]"

definition zh_stopped :: string where \<comment> \<open>detection stopped\<close>
  "zh_stopped =
     [CHR 0xE5, CHR 0xB7, CHR 0xB2, CHR 0xE5, CHR 0x81, CHR 0x9C, CHR 0xE6, CHR 0xAD,
      CHR 0xA2, CHR 0xE6, CHR 0xA3, CHR 0x80, CHR 0xE6, CHR 0xB5, CHR 0x8B]"

definition zh_nothing_to_save :: string where \<comment> \<open>there is no result to save\<close>
  "zh_nothing_to_save =
     [CHR 0xE6, CHR 0xB2, CHR 0xA1, CHR 0xE6, CHR 0x9C, CHR 0x89, CHR 0xE5, CHR 0x8F,
      CHR 0xAF, CHR 0xE4, CHR 0xBF, CHR 0x9D, CHR 0xE5, CHR 0xAD, CHR 0x98, CHR 0xE7,
      CHR 0x9A, CHR 0x84, CHR 0xE7, CHR 0xBB, CHR 0x93, CHR 0xE6, CHR 0x9E, CHR 0x9C,
      CHR 0xEF, CHR 0xBC, CHR 0x81]"

definition zh_saved :: string where \<comment> \<open>saved\<close>
  "zh_saved =
     [CHR 0xE4, CHR 0xBF, CHR 0x9D, CHR 0xE5, CHR 0xAD, CHR 0x98, CHR 0xE6, CHR 0x88,
      CHR 0x90, CHR 0xE5, CHR 0x8A, CHR 0x9F]"

definition zh_saved_to :: string where \<comment> \<open>result saved to:\<close>
  "zh_saved_to =
     [CHR 0xE7, CHR 0xBB, CHR 0x93, CHR 0xE6, CHR 0x9E, CHR 0x9C, CHR 0xE5, CHR 0xB7,
      CHR 0xB2, CHR 0xE4, CHR 0xBF, CHR 0x9D, CHR 0xE5, CHR 0xAD, CHR 0x98, CHR 0xE8,
      CHR 0x87, CHR 0xB3, CHR 0x3A, CHR 0x20]"

definition zh_theme_changed :: string where \<comment> \<open>theme changed\<close>
  "zh_theme_changed =
     [CHR 0xE4, CHR 0xB8, CHR 0xBB, CHR 0xE9, CHR 0xA2, CHR 0x98, CHR 0xE5, CHR 0xB7,
      CHR 0xB2, CHR 0xE5, CHR 0x88, CHR 0x87, CHR 0xE6, CHR 0x8D, CHR 0xA2]"

definition zh_current_theme :: string where \<comment> \<open>current theme:\<close>
  "zh_current_theme =
     [CHR 0xE5, CHR 0xBD, CHR 0x93, CHR 0xE5, CHR 0x89, CHR 0x8D, CHR 0xE4, CHR 0xB8,
      CHR 0xBB, CHR 0xE9, CHR 0xA2, CHR 0x98, CHR 0x3A, CHR 0x20]"

definition zh_dark :: string where \<comment> \<open>dark\<close>
  "zh_dark =
     [CHR 0xE6, CHR 0x9A, CHR 0x97, CHR 0xE9, CHR 0xBB, CHR 0x91]"

definition zh_light :: string where \<comment> \<open>light\<close>
  "zh_light =
     [CHR 0xE4, CHR 0xBA, CHR 0xAE, CHR 0xE7, CHR 0x99, CHR 0xBD]"

definition zh_ready :: string where \<comment> \<open>ready\<close>
  "zh_ready =
     [CHR 0xE5, CHR 0xB0, CHR 0xB1, CHR 0xE7, CHR 0xBB, CHR 0xAA]"

definition zh_no_stats :: string where \<comment> \<open>no detection data yet, with two lines of hints\<close>
  "zh_no_stats =
     [CHR 0xE6, CHR 0x9A, CHR 0x82, CHR 0xE6, CHR 0x97, CHR 0xA0, CHR 0xE6, CHR 0xA3,
      CHR 0x80, CHR 0xE6, CHR 0xB5, CHR 0x8B, CHR 0xE6, CHR 0x95, CHR 0xB0, CHR 0xE6,
      CHR 0x8D, CHR 0xAE, CHR 0x0A, CHR 0x0A, CHR 0x2D, CHR 0x20, CHR 0xE5, CHR 0x8A,
      CHR 0xA0, CHR 0xE8, CHR 0xBD, CHR 0xBD, CHR 0xE6, CHR 0xA8, CHR 0xA1, CHR 0xE5,
      CHR 0x9E, CHR 0x8B, CHR 0xE5, CHR 0xB9, CHR 0xB6, CHR 0xE5, CHR 0xBC, CHR 0x80,
      CHR 0xE5, CHR 0xA7, CHR 0x8B, CHR 0xE6, CHR 0xA3, CHR 0x80, CHR 0xE6, CHR 0xB5,
      CHR 0x8B, CHR 0xE4, CHR 0xBB, CHR 0xA5, CHR 0xE6, CHR 0x9F, CHR 0xA5, CHR 0xE7,
      CHR 0x9C, CHR 0x8B, CHR 0xE7, CHR 0xBB, CHR 0x9F, CHR 0xE8, CHR 0xAE, CHR 0xA1,
      CHR 0xE4, CHR 0xBF, CHR 0xA1, CHR 0xE6, CHR 0x81, CHR 0xAF, CHR 0x0A, CHR 0x2D,
      CHR 0x20, CHR 0xE7, CHR 0xBB, CHR 0x9F, CHR 0xE8, CHR 0xAE, CHR 0xA1, CHR 0xE4,
      CHR 0xBF, CHR 0xA1, CHR 0xE6, CHR 0x81, CHR 0xAF, CHR 0xE5, CHR 0x8C, CHR 0x85,
      CHR 0xE6, CHR 0x8B, CHR 0xAC, CHR 0xEF, CHR 0xBC, CHR 0x9A, CHR 0xE7, CHR 0xB1,
      CHR 0xBB, CHR 0xE5, CHR 0x88, CHR 0xAB, CHR 0xE6, CHR 0x95, CHR 0xB0, CHR 0xE9,
      CHR 0x87, CHR 0x8F, CHR 0xE3, CHR 0x80, CHR 0x81, CHR 0xE5, CHR 0xB9, CHR 0xB3,
      CHR 0xE5, CHR 0x9D, CHR 0x87, CHR 0xE7, CHR 0xBD, CHR 0xAE, CHR 0xE4, CHR 0xBF,
      CHR 0xA1, CHR 0xE5, CHR 0xBA, CHR 0xA6, CHR 0xE7, CHR 0xAD, CHR 0x89]"

definition zh_hint :: string where \<comment> \<open>hint\<close>
  "zh_hint =
     [CHR 0xE6, CHR 0x8F, CHR 0x90, CHR 0xE7, CHR 0xA4, CHR 0xBA]"

definition zh_no_file_chosen :: string where \<comment> \<open>no file was chosen\<close>
  "zh_no_file_chosen =
     [CHR 0xE6, CHR 0x9C, CHR 0xAA, CHR 0xE9, CHR 0x80, CHR 0x89, CHR 0xE6, CHR 0x8B,
      CHR 0xA9, CHR 0xE4, CHR 0xBB, CHR 0xBB, CHR 0xE4, CHR 0xBD, CHR 0x95, CHR 0xE6,
      CHR 0x96, CHR 0x87, CHR 0xE4, CHR 0xBB, CHR 0xB6, CHR 0xE3, CHR 0x80, CHR 0x82]"

definition zh_loading_model :: string where \<comment> \<open>loading the model\<close>
  "zh_loading_model =
     [CHR 0xE6, CHR 0xAD, CHR 0xA3, CHR 0xE5, CHR 0x9C, CHR 0xA8, CHR 0xE5, CHR 0x8A,
      CHR 0xA0, CHR 0xE8, CHR 0xBD, CHR 0xBD, CHR 0xE6, CHR 0xA8, CHR 0xA1, CHR 0xE5,
      CHR 0x9E, CHR 0x8B, CHR 0x2E, CHR 0x2E, CHR 0x2E]"

definition zh_current_model :: string where \<comment> \<open>current model:\<close>
  "zh_current_model =
     [CHR 0xE5, CHR 0xBD, CHR 0x93, CHR 0xE5, CHR 0x89, CHR 0x8D, CHR 0xE6, CHR 0xA8,
      CHR 0xA1, CHR 0xE5, CHR 0x9E, CHR 0x8B, CHR 0x3A, CHR 0x20]"

definition zh_not_loaded :: string where \<comment> \<open>not loaded\<close>
  "zh_not_loaded =
     [CHR 0xE6, CHR 0x9C, CHR 0xAA, CHR 0xE5, CHR 0x8A, CHR 0xA0, CHR 0xE8, CHR 0xBD,
      CHR 0xBD]"

definition zh_model_loaded :: string where \<comment> \<open>model loaded\<close>
  "zh_model_loaded =
     [CHR 0xE6, CHR 0xA8, CHR 0xA1, CHR 0xE5, CHR 0x9E, CHR 0x8B, CHR 0xE5, CHR 0x8A,
      CHR 0xA0, CHR 0xE8, CHR 0xBD, CHR 0xBD, CHR 0xE6, CHR 0x88, CHR 0x90, CHR 0xE5,
      CHR 0x8A, CHR 0x9F]"

definition zh_success :: string where \<comment> \<open>success\<close>
  "zh_success =
     [CHR 0xE6, CHR 0x88, CHR 0x90, CHR 0xE5, CHR 0x8A, CHR 0x9F]"

definition zh_model_load_done :: string where \<comment> \<open>model loading finished\<close>
  "zh_model_load_done =
     [CHR 0xE6, CHR 0xA8, CHR 0xA1, CHR 0xE5, CHR 0x9E, CHR 0x8B, CHR 0xE5, CHR 0x8A,
      CHR 0xA0, CHR 0xE8, CHR 0xBD, CHR 0xBD, CHR 0xE5, CHR 0xAE, CHR 0x8C, CHR 0xE6,
      CHR 0x88, CHR 0x90]"

definition zh_load_failed_not_found :: string where \<comment> \<open>model loading failed, file not found\<close>
  "zh_load_failed_not_found =
     [CHR 0xE6, CHR 0xA8, CHR 0xA1, CHR 0xE5, CHR 0x9E, CHR 0x8B, CHR 0xE5, CHR 0x8A,
      CHR 0xA0, CHR 0xE8, CHR 0xBD, CHR 0xBD, CHR 0xE5, CHR 0xA4, CHR 0xB1, CHR 0xE8,
      CHR 0xB4, CHR 0xA5, CHR 0x20, CHR 0x2D, CHR 0x20, CHR 0xE6, CHR 0x96, CHR 0x87,
      CHR 0xE4, CHR 0xBB, CHR 0xB6, CHR 0xE6, CHR 0x9C, CHR 0xAA, CHR 0xE6, CHR 0x89,
      CHR 0xBE, CHR 0xE5, CHR 0x88, CHR 0xB0]"

definition zh_file_not_found :: string where \<comment> \<open>file not found, please check the path\<close>
  "zh_file_not_found =
     [CHR 0xE6, CHR 0x96, CHR 0x87, CHR 0xE4, CHR 0xBB, CHR 0xB6, CHR 0xE6, CHR 0x9C,
      CHR 0xAA, CHR 0xE6, CHR 0x89, CHR 0xBE, CHR 0xE5, CHR 0x88, CHR 0xB0, CHR 0xEF,
      CHR 0xBC, CHR 0x8C, CHR 0xE8, CHR 0xAF, CHR 0xB7, CHR 0xE7, CHR 0xA1, CHR 0xAE,
      CHR 0xE8, CHR 0xAE, CHR 0xA4, CHR 0xE8, CHR 0xB7, CHR 0xAF, CHR 0xE5, CHR 0xBE,
      CHR 0x84, CHR 0xE6, CHR 0x98, CHR 0xAF, CHR 0xE5, CHR 0x90, CHR 0xA6, CHR 0xE6,
      CHR 0xAD, CHR 0xA3, CHR 0xE7, CHR 0xA1, CHR 0xAE, CHR 0xE3, CHR 0x80, CHR 0x82]"

definition zh_load_failed_unknown :: string where \<comment> \<open>model loading failed, unknown error\<close>
  "zh_load_failed_unknown =
     [CHR 0xE6, CHR 0xA8, CHR 0xA1, CHR 0xE5, CHR 0x9E, CHR 0x8B, CHR 0xE5, CHR 0x8A,
      CHR 0xA0, CHR 0xE8, CHR 0xBD, CHR 0xBD, CHR 0xE5, CHR 0xA4, CHR 0xB1, CHR 0xE8,
      CHR 0xB4, CHR 0xA5, CHR 0x20, CHR 0x2D, CHR 0x20, CHR 0xE6, CHR 0x9C, CHR 0xAA,
      CHR 0xE7, CHR 0x9F, CHR 0xA5, CHR 0xE9, CHR 0x94, CHR 0x99, CHR 0xE8, CHR 0xAF,
      CHR 0xAF]"

definition zh_load_error_head :: string where \<comment> \<open>an error occurred while loading the model:\<close>
  "zh_load_error_head =
     [CHR 0xE5, CHR 0x8A, CHR 0xA0, CHR 0xE8, CHR 0xBD, CHR 0xBD, CHR 0xE6, CHR 0xA8,
      CHR 0xA1, CHR 0xE5, CHR 0x9E, CHR 0x8B, CHR 0xE6, CHR 0x97, CHR 0xB6, CHR 0xE5,
      CHR 0x8F, CHR 0x91, CHR 0xE7, CHR 0x94, CHR 0x9F, CHR 0xE9, CHR 0x94, CHR 0x99,
      CHR 0xE8, CHR 0xAF, CHR 0xAF, CHR 0x3A, CHR 0x0A, CHR 0x0A]"

definition zh_load_error_tail :: string where \<comment> \<open>please check: a valid YOLOv8 model file, the ultralytics version, missing libraries\<close>
  "zh_load_error_tail =
     [CHR 0x0A, CHR 0x0A, CHR 0xE8, CHR 0xAF, CHR 0xB7, CHR 0xE6, CHR 0xA3, CHR 0x80,
      CHR 0xE6, CHR 0x9F, CHR 0xA5, CHR 0xE4, CHR 0xBB, CHR 0xA5, CHR 0xE4, CHR 0xB8,
      CHR 0x8B, CHR 0xE5, CHR 0x86, CHR 0x85, CHR 0xE5, CHR 0xAE, CHR 0xB9, CHR 0x3A,
      CHR 0x0A, CHR 0x31, CHR 0x2E, CHR 0x20, CHR 0xE6, CHR 0x98, CHR 0xAF, CHR 0xE5,
      CHR 0x90, CHR 0xA6, CHR 0xE6, CHR 0x98, CHR 0xAF, CHR 0xE6, CHR 0x9C, CHR 0x89,
      CHR 0xE6, CHR 0x95, CHR 0x88, CHR 0xE7, CHR 0x9A, CHR 0x84, CHR 0x20, CHR 0x59,
      CHR 0x4F, CHR 0x4C, CHR 0x4F, CHR 0x76, CHR 0x38, CHR 0x20, CHR 0xE6, CHR 0xA8,
      CHR 0xA1, CHR 0xE5, CHR 0x9E, CHR 0x8B, CHR 0xE6, CHR 0x96, CHR 0x87, CHR 0xE4,
      CHR 0xBB, CHR 0xB6, CHR 0x28, CHR 0x2E, CHR 0x70, CHR 0x74, CHR 0x29, CHR 0x0A,
      CHR 0x32, CHR 0x2E, CHR 0x20, CHR 0xE6, CHR 0x98, CHR 0xAF, CHR 0xE5, CHR 0x90,
      CHR 0xA6, CHR 0xE4, CHR 0xB8, CHR 0xBA, CHR 0xE6, CHR 0x9C, CHR 0x80, CHR 0xE6,
      CHR 0x96, CHR 0xB0, CHR 0x20, CHR 0x75, CHR 0x6C, CHR 0x74, CHR 0x72, CHR 0x61,
      CHR 0x6C, CHR 0x79, CHR 0x74, CHR 0x69, CHR 0x63, CHR 0x73, CHR 0x20, CHR 0xE7,
      CHR 0x89, CHR 0x88, CHR 0xE6, CHR 0x9C, CHR 0xAC, CHR 0x0A, CHR 0x33, CHR 0x2E,
      CHR 0x20, CHR 0xE6, CHR 0x98, CHR 0xAF, CHR 0xE5, CHR 0x90, CHR 0xA6, CHR 0xE7,
      CHR 0xBC, CHR 0xBA, CHR 0xE5, CHR 0xB0, CHR 0x91, CHR 0xE4, CHR 0xBE, CHR 0x9D,
      CHR 0xE8, CHR 0xB5, CHR 0x96, CHR 0xE5, CHR 0xBA, CHR 0x93]"

definition zh_load_failed :: string where \<comment> \<open>loading failed\<close>
  "zh_load_failed =
     [CHR 0xE5, CHR 0x8A, CHR 0xA0, CHR 0xE8, CHR 0xBD, CHR 0xBD, CHR 0xE5, CHR 0xA4,
      CHR 0xB1, CHR 0xE8, CHR 0xB4, CHR 0xA5]"

definition zh_frame_objects :: string where \<comment> \<open>detected in the current frame:\<close>
  "zh_frame_objects =
     [CHR 0xE5, CHR 0xBD, CHR 0x93, CHR 0xE5, CHR 0x89, CHR 0x8D, CHR 0xE5, CHR 0xB8,
      CHR 0xA7, CHR 0xE6, CHR 0xA3, CHR 0x80, CHR 0xE6, CHR 0xB5, CHR 0x8B, CHR 0xE5,
      CHR 0x88, CHR 0xB0, CHR 0x3A, CHR 0x20]"

definition zh_objects :: string where \<comment> \<open>objects\<close>
  "zh_objects =
     [CHR 0x20, CHR 0xE4, CHR 0xB8, CHR 0xAA, CHR 0xE5, CHR 0xAF, CHR 0xB9, CHR 0xE8,
      CHR 0xB1, CHR 0xA1, CHR 0x0A, CHR 0x0A]"

definition zh_class_distribution :: string where \<comment> \<open>class distribution:\<close>
  "zh_class_distribution =
     [CHR 0xE7, CHR 0xB1, CHR 0xBB, CHR 0xE5, CHR 0x88, CHR 0xAB, CHR 0xE5, CHR 0x88,
      CHR 0x86, CHR 0xE5, CHR 0xB8, CHR 0x83, CHR 0x3A, CHR 0x0A]"

definition zh_bullet :: string where \<comment> \<open>bullet\<close>
  "zh_bullet =
     [CHR 0x20, CHR 0x20, CHR 0xE2, CHR 0x80, CHR 0xA2, CHR 0x20]"

definition zh_pieces :: string where \<comment> \<open>pieces\<close>
  "zh_pieces =
     [CHR 0x20, CHR 0xE4, CHR 0xB8, CHR 0xAA]"

definition zh_avg_confidence :: string where \<comment> \<open>average confidence:\<close>
  "zh_avg_confidence =
     [CHR 0x0A, CHR 0x0A, CHR 0xE5, CHR 0xB9, CHR 0xB3, CHR 0xE5, CHR 0x9D, CHR 0x87,
      CHR 0xE7, CHR 0xBD, CHR 0xAE, CHR 0xE4, CHR 0xBF, CHR 0xA1, CHR 0xE5, CHR 0xBA,
      CHR 0xA6, CHR 0x3A, CHR 0x20]"


subsection \<open>\<open>VideoWorker\<close>\<close>

text \<open>The source handed to \<open>cv2.VideoCapture\<close>: the camera 0 or the path of a video file.\<close>

datatype video_source = Device nat | File string

text \<open>The dict that \<open>extract_stats\<close> returns.\<close>

record frame_stats =
  total_objects :: nat
  class_distribution :: "(string, nat) dict"
  avg_confidence :: rat
  fps :: rat

text \<open>
  The attributes of a worker. \<open>__init__\<close> does not create an attribute \<open>fps\<close>;
  \<open>worker_fps\<close> is \<open>None\<close> as long as the object has no such attribute.
\<close>

record video_worker =
  worker_model :: yolo
  video_source :: video_source
  conf_threshold :: rat
  running :: bool
  worker_fps :: "rat option"

definition VideoWorker_init :: "yolo \<Rightarrow> video_source \<Rightarrow> rat \<Rightarrow> video_worker" where
  "VideoWorker_init m src threshold =
     \<lparr>worker_model = m, video_source = src, conf_threshold = threshold, running = True,
      worker_fps = None\<rparr>"

definition dict_get :: "('k, 'v) dict \<Rightarrow> 'k \<Rightarrow> 'v \<Rightarrow> 'v" where
  "dict_get d k dflt = (case map_of d k of Some v \<Rightarrow> v | None \<Rightarrow> dflt)"

text \<open>Lines 49 to 53: the loop over the boxes, with \<open>counts\<close> and \<open>total_conf\<close>.\<close>

fun count_boxes :: "(nat \<Rightarrow> string) \<Rightarrow> box list \<Rightarrow> (string, nat) dict \<times> rat \<Rightarrow> (string, nat) dict \<times> rat" where
  "count_boxes nm [] (counts, total_conf) = (counts, total_conf)"
| "count_boxes nm (b # bs) (counts, total_conf) =
     (let name = nm (cls b) in
      count_boxes nm bs (dict_set name (dict_get counts name 0 + 1) counts, total_conf + conf b))"

text \<open>Lines 46 to 61. \<open>getattr(self, "fps", 0)\<close> reads the attribute if there is one.\<close>

definition extract_stats :: "video_worker \<Rightarrow> results \<Rightarrow> frame_stats" where
  "extract_stats w result =
     (let (counts, total_conf) = count_boxes (names (worker_model w)) (boxes result) ([], 0);
          avg_conf = (if boxes result \<noteq> [] then total_conf / of_nat (length (boxes result)) else 0)
      in \<lparr>total_objects = sum_list (dict_values counts),
          class_distribution = counts,
          avg_confidence = avg_conf,
          fps = (case worker_fps w of Some v \<Rightarrow> v | None \<Rightarrow> 0)\<rparr>)"

text \<open>
  What the surroundings do in one turn of the loop of \<open>run\<close>. Either the user interface
  thread has called \<open>stop\<close>, so that the loop finds \<open>running\<close> cleared; or
  \<open>cap.read()\<close> returns: a frame, or \<open>None\<close> when it reports failure (\<open>ret\<close> false),
  as OpenCV does for a frame it cannot grab or decode. The number is the wall-clock time
  in seconds that the turn takes; the source never reads a clock, so nothing uses it.
  The list of turns ends where the stream ends: every read after it fails.
\<close>

datatype turn = Stop | Read "image option" rat

text \<open>
  The state of the thread when \<open>run\<close> is left: the worker, the pairs emitted through
  \<open>frame_ready\<close>, whether \<open>cap.release()\<close> was reached, and the text of the exception
  if the model call raised (\<open>run\<close> catches nothing).
\<close>

record worker_run =
  final :: video_worker
  emitted :: "(image \<times> frame_stats) list"
  cap_released :: bool
  unhandled :: "string option"

text \<open>Lines 29 to 40, entered with \<open>running\<close> set and the capture open.\<close>

fun run_loop :: "video_worker \<Rightarrow> turn list \<Rightarrow> (image \<times> frame_stats) list \<Rightarrow> worker_run" where
  "run_loop w [] out =
     \<lparr>final = w\<lparr>running := False\<rparr>, emitted = out, cap_released = True, unhandled = None\<rparr>"
| "run_loop w (Stop # ts) out =
     \<lparr>final = w\<lparr>running := False\<rparr>, emitted = out, cap_released = True, unhandled = None\<rparr>"
| "run_loop w (Read None elapsed # ts) out =
     \<lparr>final = w\<lparr>running := False\<rparr>, emitted = out, cap_released = True, unhandled = None\<rparr>"
| "run_loop w (Read (Some frame) elapsed # ts) out =
     (case predict (worker_model w) (Some (conf_threshold w)) (Some frame) of
        Inl e \<Rightarrow> \<lparr>final = w, emitted = out, cap_released = False, unhandled = Some e\<rparr>
      | Inr res \<Rightarrow> run_loop w ts (out @ [(plot res, extract_stats w res)]))"

text \<open>Lines 27 to 40. \<open>opened\<close> is the answer of \<open>cap.isOpened()\<close>.\<close>

definition run :: "video_worker \<Rightarrow> bool \<Rightarrow> turn list \<Rightarrow> worker_run" where
  "run w opened ts =
     (if running w \<and> opened then run_loop w ts []
      else \<lparr>final = w, emitted = [], cap_released = True, unhandled = None\<rparr>)"

text \<open>
  The processing rate of the specification: a cycle that takes \<open>elapsed\<close> seconds is a
  rate of \<open>1 / elapsed\<close> frames per second. The source has no counterpart.
\<close>

definition spec_fps :: "rat \<Rightarrow> rat" where
  "spec_fps elapsed = 1 / elapsed"


subsection \<open>State of \<open>YOLODetector\<close>\<close>

text \<open>
  An exception that leaves a slot of the window unhandled: nothing in the source catches
  it, and the operation has no resulting state.
\<close>

datatype py_error = AttributeError | TypeError | ModelError string | OSError

text \<open>What the user interface thread does to a worker thread.\<close>

datatype thread_call = Start video_source | StopAndWait video_source

text \<open>
  The attributes of the window and the widgets that the operations read or write.
  \<open>file_path\<close> and \<open>last_image\<close> are attributes that \<open>__init__\<close> does not create:
  they are \<open>None\<close> as long as the object has no such attribute. \<open>input_combo\<close> is the
  current index of the source selector (0 camera, 1 video file, 2 image file). The
  last four fields log what reaches the outside: the dialogs of \<open>show_message\<close> (title,
  text, error flag), the calls on worker threads, the directories made and the image
  files written.
\<close>

record detector =
  det_model :: "yolo option"
  model_path :: string
  save_dir :: string
  worker :: "video_worker option"
  dark_theme :: bool
  file_path :: "string option"
  last_image :: "image option"
  input_combo :: nat
  start_btn_enabled :: bool
  stop_btn_enabled :: bool
  model_label :: string
  status_label :: string
  det_image_label :: "image option"
  stats_text :: string
  messages :: "(string \<times> string \<times> bool) list"
  thread_calls :: "thread_call list"
  made_dirs :: "string list"
  written :: "(string \<times> image) list"

definition YOLODetector_init :: detector where
  "YOLODetector_init =
     \<lparr>det_model = None, model_path = [], save_dir = ''results'', worker = None,
      dark_theme = True, file_path = None, last_image = None, input_combo = 0,
      start_btn_enabled = True, stop_btn_enabled = True,
      model_label = zh_current_model @ zh_not_loaded, status_label = zh_ready,
      det_image_label = None, stats_text = zh_no_stats, messages = [], thread_calls = [],
      made_dirs = [], written = []\<rparr>"

text \<open>The file system and OpenCV's reader, as the operations see them.\<close>

record os_env =
  path_exists :: "string \<Rightarrow> bool"
  makedirs_ok :: "string \<Rightarrow> bool"
  imread :: "string \<Rightarrow> image option"

subsection \<open>Operations of \<open>YOLODetector\<close>\<close>

definition show_message :: "string \<Rightarrow> string \<Rightarrow> bool \<Rightarrow> detector \<Rightarrow> detector" where
  "show_message title content is_error st = st\<lparr>messages := messages st @ [(title, content, is_error)]\<rparr>"

text \<open>\<open>os.path.basename\<close> for paths with forward slashes.\<close>

definition basename :: "string \<Rightarrow> string" where
  "basename path = rev (takeWhile (\<lambda>c. c \<noteq> CHR ''/'') (rev path))"

text \<open>
  Lines 313 to 345. \<open>file_name\<close> is the answer of the file dialog, \<open>outcome\<close> what
  \<open>YOLO(file_name).to('cpu')\<close> does.
\<close>

datatype load_outcome = Loaded yolo | FileNotFound | LoadFailed string

definition load_model :: "string \<Rightarrow> load_outcome \<Rightarrow> detector \<Rightarrow> detector" where
  "load_model file_name outcome st =
     (if file_name = [] then show_message zh_hint zh_no_file_chosen False st
      else
        (case outcome of
           Loaded m \<Rightarrow>
             show_message zh_success zh_model_load_done False
               (st\<lparr>det_model := Some m, model_path := file_name,
                  model_label := zh_current_model @ basename file_name,
                  status_label := zh_model_loaded\<rparr>)
         | FileNotFound \<Rightarrow>
             show_message zh_error zh_file_not_found True
               (st\<lparr>status_label := zh_load_failed_not_found\<rparr>)
         | LoadFailed error_msg \<Rightarrow>
             show_message zh_load_failed (zh_load_error_head @ error_msg @ zh_load_error_tail) True
               (st\<lparr>status_label := zh_load_failed_unknown\<rparr>)))"

text \<open>Lines 347 to 356. \<open>file_name\<close> is the answer of the file dialog.\<close>

definition select_input_file :: "string \<Rightarrow> detector \<Rightarrow> detector" where
  "select_input_file file_name st =
     (if input_combo st = 1 \<or> input_combo st = 2 then st\<lparr>file_path := Some file_name\<rparr> else st)"

text \<open>Lines 393 to 401: the label shows the image.\<close>

definition display_image :: "image \<Rightarrow> detector \<Rightarrow> detector" where
  "display_image img st = st\<lparr>det_image_label := Some img\<rparr>"

text \<open>
  Lines 403 to 408. The argument is the dict of a worker or, from
  \<open>process_single_image\<close>, the result object of the model, which is not a dict and is
  ignored. \<open>fmt2\<close> stands for the format \<open>:.2f\<close>.
\<close>

datatype stats_arg = StatsDict frame_stats | ResultObject results

definition update_stats :: "(rat \<Rightarrow> string) \<Rightarrow> stats_arg \<Rightarrow> detector \<Rightarrow> detector" where
  "update_stats fmt2 arg st =
     (case arg of
        StatsDict stats \<Rightarrow>
          st\<lparr>stats_text :=
               zh_frame_objects @ str_nat (total_objects stats) @ zh_objects @
               zh_class_distribution @
               join [CHR 0x0A]
                 (map (\<lambda>(k, v). zh_bullet @ k @ '': '' @ str_nat v @ zh_pieces)
                    (class_distribution stats)) @
               zh_avg_confidence @ fmt2 (avg_confidence stats)\<rparr>
      | ResultObject res \<Rightarrow> st)"

text \<open>Lines 389 to 391, the slot of the signal \<open>frame_ready\<close>.\<close>

definition display_image_and_stats :: "(rat \<Rightarrow> string) \<Rightarrow> image \<Rightarrow> frame_stats \<Rightarrow> detector \<Rightarrow> detector" where
  "display_image_and_stats fmt2 frame stats st = update_stats fmt2 (StatsDict stats) (display_image frame st)"

text \<open>Lines 378 to 387.\<close>

definition process_single_image :: "(rat \<Rightarrow> string) \<Rightarrow> os_env \<Rightarrow> detector \<Rightarrow> py_error + detector" where
  "process_single_image fmt2 env st =
     (case file_path st of
        None \<Rightarrow> Inr (show_message zh_warning zh_choose_valid_image True st)
      | Some p \<Rightarrow>
          if \<not> path_exists env p then Inr (show_message zh_warning zh_choose_valid_image True st)
          else
            (case det_model st of
               None \<Rightarrow> Inl TypeError
             | Some m \<Rightarrow>
                 (case predict m (Some (3 / 10)) (imread env p) of
                    Inl e \<Rightarrow> Inl (ModelError e)
                  | Inr res \<Rightarrow>
                      Inr (update_stats fmt2 (ResultObject res) (display_image (plot res) st)))))"

text \<open>
  Lines 358 to 376. In the streaming modes the buttons are switched first; then, for a
  video file, the attribute \<open>file_path\<close> is read, which raises if no file was ever
  selected. The new worker replaces the reference to an earlier one and its thread is
  started, which opens the source.
\<close>

definition start_detection :: "(rat \<Rightarrow> string) \<Rightarrow> os_env \<Rightarrow> detector \<Rightarrow> py_error + detector" where
  "start_detection fmt2 env st =
     (case det_model st of
        None \<Rightarrow> Inr (show_message zh_warning zh_load_model_first True st)
      | Some m \<Rightarrow>
          if input_combo st = 2 then process_single_image fmt2 env st
          else
            (let st1 = st\<lparr>start_btn_enabled := False, stop_btn_enabled := True,
                          status_label := zh_detecting\<rparr>;
                 source = (if input_combo st = 0 then Some (Device 0)
                           else map_option File (file_path st))
             in case source of
                  None \<Rightarrow> Inl AttributeError
                | Some src \<Rightarrow>
                    Inr (st1\<lparr>worker := Some (VideoWorker_init m src (3 / 10)),
                            thread_calls := thread_calls st1 @ [Start src]\<rparr>)))"

text \<open>Lines 410 to 416. \<open>worker.stop()\<close> clears \<open>running\<close> and waits for the thread.\<close>

definition stop_detection :: "detector \<Rightarrow> detector" where
  "stop_detection st =
     (let st1 = (case worker st of
                   Some w \<Rightarrow> st\<lparr>worker := None,
                               thread_calls := thread_calls st @ [StopAndWait (video_source w)]\<rparr>
                 | None \<Rightarrow> st)
      in st1\<lparr>start_btn_enabled := True, stop_btn_enabled := False, status_label := zh_stopped\<rparr>)"

text \<open>Lines 418 to 431. \<open>file_name\<close> is the answer of the save dialog.\<close>

definition save_result :: "os_env \<Rightarrow> string \<Rightarrow> detector \<Rightarrow> py_error + detector" where
  "save_result env file_name st =
     (case last_image st of
        None \<Rightarrow> Inr (show_message zh_warning zh_nothing_to_save True st)
      | Some img \<Rightarrow>
          if \<not> path_exists env (save_dir st) \<and> \<not> makedirs_ok env (save_dir st) then Inl OSError
          else
            (let st1 = (if \<not> path_exists env (save_dir st)
                        then st\<lparr>made_dirs := made_dirs st @ [save_dir st]\<rparr> else st)
             in if file_name \<noteq> [] then
                  Inr (show_message zh_saved (zh_saved_to @ file_name) False
                         (st1\<lparr>written := written st1 @ [(file_name, img)]\<rparr>))
                else Inr st1))"

text \<open>Lines 433 to 436.\<close>

definition change_theme :: "nat \<Rightarrow> detector \<Rightarrow> detector" where
  "change_theme index st =
     show_message zh_theme_changed (zh_current_theme @ (if index = 0 then zh_dark else zh_light)) False
       (st\<lparr>dark_theme := (index = 0)\<rparr>)"

text \<open>Lines 474 to 477.\<close>

definition closeEvent :: "detector \<Rightarrow> detector" where
  "closeEvent st =
     (case worker st of
        Some w \<Rightarrow> st\<lparr>thread_calls := thread_calls st @ [StopAndWait (video_source w)]\<rparr>
      | None \<Rightarrow> st)"

subsection \<open>The window as a transition system\<close>

text \<open>
  The events that reach the window: the clicks on its buttons with the answers of the
  dialogs they open, the selections in the two combo boxes, the signal \<open>frame_ready\<close>
  of a worker, and the closing of the window. A button that is disabled emits no
  click. Any frame and any statistics may arrive with \<open>frame_ready\<close>.
\<close>

datatype event =
    LoadModelClicked string load_outcome
  | InputSelected nat
  | SelectFileClicked string
  | StartClicked
  | StopClicked
  | SaveClicked string
  | ThemeSelected nat
  | FrameReady image frame_stats
  | WindowClosed

fun step :: "(rat \<Rightarrow> string) \<Rightarrow> os_env \<Rightarrow> detector \<Rightarrow> event \<Rightarrow> py_error + detector" where
  "step fmt2 env st (LoadModelClicked file_name outcome) = Inr (load_model file_name outcome st)"
| "step fmt2 env st (InputSelected i) = Inr (if i < 3 then st\<lparr>input_combo := i\<rparr> else st)"
| "step fmt2 env st (SelectFileClicked file_name) = Inr (select_input_file file_name st)"
| "step fmt2 env st StartClicked =
     (if start_btn_enabled st then start_detection fmt2 env st else Inr st)"
| "step fmt2 env st StopClicked =
     (if stop_btn_enabled st then Inr (stop_detection st) else Inr st)"
| "step fmt2 env st (SaveClicked file_name) = save_result env file_name st"
| "step fmt2 env st (ThemeSelected i) = Inr (if i < 2 then change_theme i st else st)"
| "step fmt2 env st (FrameReady frame stats) = Inr (display_image_and_stats fmt2 frame stats st)"
| "step fmt2 env st WindowClosed = Inr (closeEvent st)"

text \<open>The calls that start a worker thread, each of which opens a source.\<close>

fun is_start :: "thread_call \<Rightarrow> bool" where
  "is_start (Start src) = True"
| "is_start (StopAndWait src) = False"

text \<open>The states that the window can be in: those that events lead to from the start.\<close>

inductive reachable :: "(rat \<Rightarrow> string) \<Rightarrow> os_env \<Rightarrow> detector \<Rightarrow> bool"
  for fmt2 :: "rat \<Rightarrow> string" and env :: os_env
where
  start: "reachable fmt2 env YOLODetector_init"
| event: "reachable fmt2 env st \<Longrightarrow> step fmt2 env st ev = Inr st' \<Longrightarrow> reachable fmt2 env st'"

text \<open>The run of a list of events, for concrete instances.\<close>

fun steps :: "(rat \<Rightarrow> string) \<Rightarrow> os_env \<Rightarrow> detector \<Rightarrow> event list \<Rightarrow> py_error + detector" where
  "steps fmt2 env st [] = Inr st"
| "steps fmt2 env st (ev # evs) =
     (case step fmt2 env st ev of Inl e \<Rightarrow> Inl e | Inr st' \<Rightarrow> steps fmt2 env st' evs)"


subsection \<open>Fixtures for the concrete instances\<close>

text \<open>
  A model with the classes 0 (rice-bug), 1 (stem-borer) and, for every other index, a
  label that the tables do not know; on every image it reports the boxes \<open>bs\<close> and
  draws nothing on the image.
\<close>

definition demo_model :: "box list \<Rightarrow> yolo" where
  "demo_model bs =
     \<lparr>names = (\<lambda>c. if c = 0 then ''rice-bug'' else if c = 1 then ''stem-borer'' else ''moth''),
      predict = (\<lambda>threshold img. Inr \<lparr>plot = (case img of Some f \<Rightarrow> f | None \<Rightarrow> []), boxes = bs\<rparr>)\<rparr>"

definition demo_boxes :: "box list" where
  "demo_boxes = [\<lparr>cls = 0, conf = 9 / 10\<rparr>, \<lparr>cls = 0, conf = 4 / 5\<rparr>, \<lparr>cls = 1, conf = 7 / 10\<rparr>]"

text \<open>The window after a model and an image were loaded, with the area text \<open>t\<close>.\<close>

definition demo_app :: "box list \<Rightarrow> string \<Rightarrow> pest_app" where
  "demo_app bs t =
     SimplePesticideApp_init\<lparr>model := Some (demo_model bs), current_img := Some [1, 2, 3],
       area_input := t\<rparr>"

definition demo_fmt :: "pyfloat \<Rightarrow> string" where
  "demo_fmt x = (case x of Finite q \<Rightarrow> ''<number>'' | _ \<Rightarrow> ''<special>'')"

text \<open>A worker on the camera, the files that exist, and the window after a model was loaded.\<close>

definition demo_worker :: video_worker where
  "demo_worker = VideoWorker_init (demo_model demo_boxes) (Device 0) (3 / 10)"

definition demo_env :: os_env where
  "demo_env =
     \<lparr>path_exists = (\<lambda>p. p = ''rice.jpg''), makedirs_ok = (\<lambda>p. True),
      imread = (\<lambda>p. if p = ''rice.jpg'' then Some [7, 7] else None)\<rparr>"

definition demo_fmt2 :: "rat \<Rightarrow> string" where
  "demo_fmt2 x = ''<number>''"

definition demo_loaded :: detector where
  "demo_loaded = load_model ''best.pt'' (Loaded (demo_model demo_boxes)) YOLODetector_init"

text \<open>The window after \<open>start_detection\<close> was called on it.\<close>

definition demo_started :: detector where
  "demo_started = projr (start_detection demo_fmt2 demo_env demo_loaded)"

text \<open>
  A session: the model is loaded, a stream is started, a frame arrives, the stream is
  stopped, then an image file is selected and detected.
\<close>

definition demo_events :: "event list" where
  "demo_events =
     [LoadModelClicked ''best.pt'' (Loaded (demo_model demo_boxes)),
      StartClicked,
      FrameReady [1] \<lparr>total_objects = 3,
        class_distribution = [(''rice-bug'', 2), (''stem-borer'', 1)],
        avg_confidence = 4 / 5, fps = 0\<rparr>,
      StopClicked,
      InputSelected 2,
      SelectFileClicked ''rice.jpg'',
      StartClicked]"


section \<open>Properties of the pesticide recommendation program\<close>

subsection \<open>Dictionaries and the merge of the records\<close>

lemma map_of_dict_set: "map_of (dict_set k v d) = (map_of d)(k \<mapsto> v)"
  by (induction d) (auto simp: fun_eq_iff)

lemma keys_dict_set:
  "map fst (dict_set k v d) = (if k \<in> set (map fst d) then map fst d else map fst d @ [k])"
  by (induction d) (auto simp: rev_image_eqI)

lemma distinct_dict_set: "distinct (map fst d) \<Longrightarrow> distinct (map fst (dict_set k v d))"
  by (simp add: keys_dict_set)

lemma distinct_merge_items:
  "distinct (map fst d) \<Longrightarrow> distinct (map fst (merge_items items d))"
  by (induction items arbitrary: d) (auto simp: Let_def distinct_dict_set split: option.splits)

lemma map_of_merge_items:
  "map_of (merge_items items d) k =
     (case map_of d k of
        Some r \<Rightarrow> Some (r\<lparr>count := count r + length (filter (\<lambda>i. english i = k) items)\<rparr>)
      | None \<Rightarrow>
          (case find (\<lambda>i. english i = k) items of
             None \<Rightarrow> None
           | Some it \<Rightarrow> Some (it\<lparr>count := count it + (length (filter (\<lambda>i. english i = k) items) - 1)\<rparr>)))"
proof (induction items arbitrary: d)
  case Nil
  show ?case by (simp split: option.splits)
next
  case (Cons item items)
  show ?case
  proof (cases "map_of d (english item)")
    case None
    then show ?thesis
      by (simp add: Cons.IH map_of_dict_set split: option.splits)
  next
    case (Some r)
    then show ?thesis
      by (simp add: Cons.IH map_of_dict_set split: option.splits)
  qed
qed

lemma collect_items_map:
  "collect_items nm bs data = data @ map (\<lambda>b. new_item (nm (cls b))) bs"
  by (induction bs arbitrary: data) auto

lemma english_new_item: "english (new_item l) = l"
  by (simp add: new_item_def Let_def split: option.splits prod.splits)

lemma count_new_item: "count (new_item l) = 1"
  by (simp add: new_item_def Let_def split: option.splits prod.splits)


lemma length_filter_items:
  "length (filter (\<lambda>i. english i = k) (map (\<lambda>b. new_item (nm (cls b))) bs)) =
   length (filter (\<lambda>b. nm (cls b) = k) bs)"
  by (induction bs) (auto simp: english_new_item)

lemma merged_entry:
  assumes "(k, r) \<in> set (merge_items (map (\<lambda>b. new_item (nm (cls b))) bs) [])"
  shows "r = (new_item k)\<lparr>count := length (filter (\<lambda>b. nm (cls b) = k) bs)\<rparr>
         \<and> k \<in> (\<lambda>b. nm (cls b)) ` set bs"
proof -
  let ?items = "map (\<lambda>b. new_item (nm (cls b))) bs"
  let ?n = "length (filter (\<lambda>i. english i = k) ?items)"
  have "distinct (map fst (merge_items ?items []))"
    by (rule distinct_merge_items) simp
  then have "map_of (merge_items ?items []) k = Some r"
    using assms by (rule map_of_is_SomeI)
  then obtain it where f: "find (\<lambda>i. english i = k) ?items = Some it"
    and r: "r = it\<lparr>count := count it + (?n - 1)\<rparr>"
    by (auto simp: map_of_merge_items split: option.splits)
  from f have mem: "it \<in> set ?items" and eng: "english it = k"
    by (auto simp: find_Some_iff)
  from mem obtain b where b: "b \<in> set bs" and it: "it = new_item (nm (cls b))"
    by auto
  from it eng have k: "nm (cls b) = k"
    by (simp add: english_new_item)
  from mem eng have "it \<in> set (filter (\<lambda>i. english i = k) ?items)"
    by simp
  then have "0 < ?n"
    by (rule length_pos_if_in_set)
  with r it k have "r = (new_item k)\<lparr>count := ?n\<rparr>"
    by (simp add: count_new_item)
  then have "r = (new_item k)\<lparr>count := length (filter (\<lambda>b. nm (cls b) = k) bs)\<rparr>"
    by (simp only: length_filter_items)
  with b k show ?thesis
    by blast
qed

lemma key_set_dict_set: "fst ` set (dict_set k v d) = insert k (fst ` set d)"
proof -
  have "set (map fst (dict_set k v d)) = insert k (set (map fst d))"
    unfolding keys_dict_set by auto
  then show ?thesis
    by simp
qed

lemma keys_merge_items:
  "fst ` set (merge_items items d) = fst ` set d \<union> english ` set items"
proof (induction items arbitrary: d)
  case Nil
  show ?case by simp
next
  case (Cons item items)
  show ?case
  proof (cases "map_of d (english item)")
    case None
    then show ?thesis
      by (simp add: Cons.IH key_set_dict_set)
  next
    case (Some r)
    then have "english item \<in> fst ` set d"
      by (auto dest: map_of_SomeD simp: rev_image_eqI)
    with Some show ?thesis
      by (auto simp: Cons.IH key_set_dict_set)
  qed
qed

lemma pest_data_update_recommendation:
  "pest_data (update_recommendation fmt1 st) = pest_data st"
  by (simp add: update_recommendation_def Let_def)

lemma pest_data_run_detection:
  assumes "model st = Some m" "current_img st = Some img" "predict m None (Some img) = Inr res"
  shows "pest_data (run_detection fmt1 st) =
         dict_values (merge_items (map (\<lambda>b. new_item (names m (cls b))) (boxes res)) [])"
  using assms
  by (simp add: run_detection_def Let_def pest_data_update_recommendation collect_items_map)

lemma merged_labels:
  "map english (dict_values (merge_items (map (\<lambda>b. new_item (nm (cls b))) bs) [])) =
   map fst (merge_items (map (\<lambda>b. new_item (nm (cls b))) bs) [])"
proof -
  have "english (snd p) = fst p"
    if "p \<in> set (merge_items (map (\<lambda>b. new_item (nm (cls b))) bs) [])" for p
  proof -
    from that have "(fst p, snd p) \<in> set (merge_items (map (\<lambda>b. new_item (nm (cls b))) bs) [])"
      by simp
    from merged_entry [OF this] show ?thesis
      by (simp add: english_new_item)
  qed
  then show ?thesis
    by (simp add: dict_values_def)
qed


subsection \<open>The effective area\<close>




subsection \<open>One record for each label\<close>

text \<open>
  C2. When \<open>run_detection\<close> gets the boxes of an image from the model, the records it
  stores have pairwise different labels, the labels are exactly those of the boxes, and
  the count of each record is the number of boxes with its label.
\<close>

theorem one_record_per_label:
  assumes "model st = Some m" and "current_img st = Some img"
    and "predict m None (Some img) = Inr res"
  shows "distinct (map english (pest_data (run_detection fmt1 st))) \<and>
         set (map english (pest_data (run_detection fmt1 st))) = (\<lambda>b. names m (cls b)) ` set (boxes res) \<and>
         (\<forall>r \<in> set (pest_data (run_detection fmt1 st)).
            count r = length (filter (\<lambda>b. names m (cls b) = english r) (boxes res)))"
proof -
  let ?d = "merge_items (map (\<lambda>b. new_item (names m (cls b))) (boxes res)) []"
  have pd: "pest_data (run_detection fmt1 st) = dict_values ?d"
    using assms by (rule pest_data_run_detection)
  have "distinct (map fst ?d)"
    by (rule distinct_merge_items) simp
  then have c1: "distinct (map english (dict_values ?d))"
    by (simp only: merged_labels)
  have "set (map fst ?d) = (\<lambda>b. names m (cls b)) ` set (boxes res)"
    by (simp add: keys_merge_items image_image english_new_item)
  then have c2: "set (map english (dict_values ?d)) = (\<lambda>b. names m (cls b)) ` set (boxes res)"
    by (simp only: merged_labels)
  have c3: "count r = length (filter (\<lambda>b. names m (cls b) = english r) (boxes res))"
    if "r \<in> set (dict_values ?d)" for r
  proof -
    from that obtain k where "(k, r) \<in> set ?d"
      by (auto simp: dict_values_def)
    from merged_entry [OF this] show ?thesis
      by (simp add: english_new_item)
  qed
  from c1 c2 c3 show ?thesis
    unfolding pd by blast
qed

text \<open>
  The instance of the specification: the labels rice-bug, rice-bug, stem-borer give two
  records, with the counts 2 and 1.
\<close>

theorem one_record_per_label_witness:
  "model (demo_app demo_boxes []) = Some (demo_model demo_boxes) \<and>
   current_img (demo_app demo_boxes []) = Some [1, 2, 3] \<and>
   predict (demo_model demo_boxes) None (Some [1, 2, 3]) = Inr \<lparr>plot = [1, 2, 3], boxes = demo_boxes\<rparr> \<and>
   map (\<lambda>b. names (demo_model demo_boxes) (cls b)) demo_boxes = [''rice-bug'', ''rice-bug'', ''stem-borer''] \<and>
   distinct (map english (pest_data (run_detection demo_fmt (demo_app demo_boxes [])))) \<and>
   list_all (\<lambda>r. count r = length (filter (\<lambda>b. names (demo_model demo_boxes) (cls b) = english r) demo_boxes))
     (pest_data (run_detection demo_fmt (demo_app demo_boxes []))) \<and>
   map (\<lambda>r. (english r, count r)) (pest_data (run_detection demo_fmt (demo_app demo_boxes []))) =
     [(''rice-bug'', 2), (''stem-borer'', 1)]"
proof -
  have h1: "model (demo_app demo_boxes []) = Some (demo_model demo_boxes)"
    and h2: "current_img (demo_app demo_boxes []) = Some [1, 2, 3]"
    by (simp_all add: demo_app_def)
  have h3: "predict (demo_model demo_boxes) None (Some [1, 2, 3]) = Inr \<lparr>plot = [1, 2, 3], boxes = demo_boxes\<rparr>"
    by (simp add: demo_model_def)
  have h4: "map (\<lambda>b. names (demo_model demo_boxes) (cls b)) demo_boxes = [''rice-bug'', ''rice-bug'', ''stem-borer'']"
    by (simp add: demo_model_def demo_boxes_def)
  have h5: "map (\<lambda>r. (english r, count r)) (pest_data (run_detection demo_fmt (demo_app demo_boxes []))) =
     [(''rice-bug'', 2), (''stem-borer'', 1)]"
    by code_simp
  from one_record_per_label [OF h1 h2 h3, of demo_fmt] h1 h2 h3 h4 h5 show ?thesis
    by (simp add: list_all_iff)
qed

subsection \<open>Labels that the pesticide table does not know\<close>

lemma new_item_unknown:
  "PESTICIDE_DB l = None \<Longrightarrow> pesticide (new_item l) = zh_unknown \<and> base_dosage (new_item l) = 0"
  by (simp add: new_item_def Let_def split: option.splits)

text \<open>
  C5, as the source has it. After a run, every box has a record with its label, and a
  record whose label is not a key of \<open>PESTICIDE_DB\<close> has the fallback pesticide name
  of the source (the Chinese word for unknown), the base dosage 0 and the total dosage 0
  for every finite area.
\<close>

theorem unknown_label_record:
  assumes "model st = Some m" and "current_img st = Some img"
    and "predict m None (Some img) = Inr res"
  shows "(\<forall>b \<in> set (boxes res).
            \<exists>r \<in> set (pest_data (run_detection fmt1 st)). english r = names m (cls b)) \<and>
         (\<forall>r \<in> set (pest_data (run_detection fmt1 st)).
            PESTICIDE_DB (english r) = None \<longrightarrow>
              pesticide r = zh_unknown \<and> base_dosage r = 0 \<and>
              (\<forall>a. total_dosage r (Finite a) = Finite 0))"
proof -
  let ?d = "merge_items (map (\<lambda>b. new_item (names m (cls b))) (boxes res)) []"
  have pd: "pest_data (run_detection fmt1 st) = dict_values ?d"
    using assms by (rule pest_data_run_detection)
  have present: "\<exists>r \<in> set (dict_values ?d). english r = names m (cls b)"
    if "b \<in> set (boxes res)" for b
  proof -
    from that have "names m (cls b) \<in> fst ` set ?d"
      by (simp add: keys_merge_items image_image english_new_item)
    then obtain r where r: "(names m (cls b), r) \<in> set ?d"
      by auto
    from merged_entry [OF r] have "english r = names m (cls b)"
      by (simp add: english_new_item)
    moreover from r have "r \<in> set (dict_values ?d)"
      by (force simp: dict_values_def)
    ultimately show ?thesis
      by blast
  qed
  have fields: "pesticide r = zh_unknown \<and> base_dosage r = 0 \<and>
      (\<forall>a. total_dosage r (Finite a) = Finite 0)"
    if "r \<in> set (dict_values ?d)" and "PESTICIDE_DB (english r) = None" for r
  proof -
    from that(1) obtain k where "(k, r) \<in> set ?d"
      by (auto simp: dict_values_def)
    from merged_entry [OF this]
    have r: "r = (new_item k)\<lparr>count := length (filter (\<lambda>b. names m (cls b) = k) (boxes res))\<rparr>"
      by simp
    then have "english r = k"
      by (simp add: english_new_item)
    with that(2) have "PESTICIDE_DB k = None"
      by simp
    from new_item_unknown [OF this] r show ?thesis
      by (simp add: total_dosage_def)
  qed
  from present fields show ?thesis
    unfolding pd by blast
qed

theorem unknown_label_record_witness:
  "model (demo_app [\<lparr>cls = 2, conf = 1 / 2\<rparr>] ''2.5'') = Some (demo_model [\<lparr>cls = 2, conf = 1 / 2\<rparr>]) \<and>
   current_img (demo_app [\<lparr>cls = 2, conf = 1 / 2\<rparr>] ''2.5'') = Some [1, 2, 3] \<and>
   predict (demo_model [\<lparr>cls = 2, conf = 1 / 2\<rparr>]) None (Some [1, 2, 3]) =
     Inr \<lparr>plot = [1, 2, 3], boxes = [\<lparr>cls = 2, conf = 1 / 2\<rparr>]\<rparr> \<and>
   map english (pest_data (run_detection demo_fmt (demo_app [\<lparr>cls = 2, conf = 1 / 2\<rparr>] ''2.5''))) = [''moth''] \<and>
   PESTICIDE_DB ''moth'' = None \<and>
   list_all (\<lambda>r. pesticide r = zh_unknown \<and> base_dosage r = 0 \<and>
               total_dosage r (area_of_text ''2.5'') = Finite 0)
     (pest_data (run_detection demo_fmt (demo_app [\<lparr>cls = 2, conf = 1 / 2\<rparr>] ''2.5'')))"
proof -
  let ?bs = "[\<lparr>cls = 2, conf = 1 / 2\<rparr>]"
  let ?st = "demo_app ?bs ''2.5''"
  have h1: "model ?st = Some (demo_model ?bs)" and h2: "current_img ?st = Some [1, 2, 3]"
    by (simp_all add: demo_app_def)
  have h3: "predict (demo_model ?bs) None (Some [1, 2, 3]) = Inr \<lparr>plot = [1, 2, 3], boxes = ?bs\<rparr>"
    by (simp add: demo_model_def)
  have h4: "map english (pest_data (run_detection demo_fmt ?st)) = [''moth'']"
    by code_simp
  have h5: "PESTICIDE_DB ''moth'' = None"
    by code_simp
  have h6: "area_of_text ''2.5'' = Finite (5 / 2)"
    by code_simp
  have "english r = ''moth''" if "r \<in> set (pest_data (run_detection demo_fmt ?st))" for r
  proof -
    from that have "english r \<in> set (map english (pest_data (run_detection demo_fmt ?st)))"
      by simp
    then show ?thesis
      unfolding h4 by simp
  qed
  with unknown_label_record [OF h1 h2 h3, of demo_fmt] h5 h6
  have "\<forall>r \<in> set (pest_data (run_detection demo_fmt ?st)).
      pesticide r = zh_unknown \<and> base_dosage r = 0 \<and> total_dosage r (area_of_text ''2.5'') = Finite 0"
    by simp
  with h1 h2 h3 h4 h5 show ?thesis
    by (simp add: list_all_iff)
qed

text \<open>
  For every area value the claim fails: \<open>float\<close> accepts the text \<open>inf\<close>, and the
  product of the base dosage 0 and an infinite area is NaN, not 0. The run is on an
  image with one box, of a label that the table does not know.
\<close>

theorem unknown_label_infinite_area_counterexample:
  "PESTICIDE_DB ''moth'' = None \<and>
   length (pest_data (run_detection demo_fmt (demo_app [\<lparr>cls = 2, conf = 1 / 2\<rparr>] ''inf''))) = 1 \<and>
   english (hd (pest_data (run_detection demo_fmt (demo_app [\<lparr>cls = 2, conf = 1 / 2\<rparr>] ''inf'')))) = ''moth'' \<and>
   area_of_text (area_input (run_detection demo_fmt (demo_app [\<lparr>cls = 2, conf = 1 / 2\<rparr>] ''inf''))) = PosInf \<and>
   total_dosage (hd (pest_data (run_detection demo_fmt (demo_app [\<lparr>cls = 2, conf = 1 / 2\<rparr>] ''inf''))))
     PosInf = NaN \<and>
   NaN \<noteq> Finite 0"
  by code_simp

subsection \<open>No detections\<close>

text \<open>
  C7. Whatever the area text is, \<open>update_recommendation\<close> on an empty list of records
  shows the text of the source for no pests detected, which is not the empty text; and
  a run of \<open>run_detection\<close> in which the model reports no box stores no record and
  shows that text.
\<close>

theorem no_pests_sentinel:
  "(pest_data st = [] \<longrightarrow> result_label (area_text_changed fmt1 t st) = zh_no_pests) \<and>
   (model st = Some m \<and> current_img st = Some img \<and> predict m None (Some img) = Inr res \<and>
    boxes res = [] \<longrightarrow>
      pest_data (run_detection fmt1 st) = [] \<and> result_label (run_detection fmt1 st) = zh_no_pests) \<and>
   zh_no_pests \<noteq> []"
proof -
  have "pest_data st = [] \<longrightarrow> result_label (area_text_changed fmt1 t st) = zh_no_pests"
    by (simp add: area_text_changed_def update_recommendation_def)
  moreover have "model st = Some m \<and> current_img st = Some img \<and>
      predict m None (Some img) = Inr res \<and> boxes res = [] \<longrightarrow>
      pest_data (run_detection fmt1 st) = [] \<and> result_label (run_detection fmt1 st) = zh_no_pests"
    by (simp add: run_detection_def update_recommendation_def dict_values_def)
  moreover have "zh_no_pests \<noteq> []"
    by (simp add: zh_no_pests_def)
  ultimately show ?thesis
    by blast
qed

theorem no_pests_sentinel_witness:
  "pest_data SimplePesticideApp_init = [] \<and>
   result_label (area_text_changed demo_fmt ''3'' SimplePesticideApp_init) = zh_no_pests \<and>
   model (demo_app [] ''abc'') = Some (demo_model []) \<and>
   current_img (demo_app [] ''abc'') = Some [1, 2, 3] \<and>
   predict (demo_model []) None (Some [1, 2, 3]) = Inr \<lparr>plot = [1, 2, 3], boxes = []\<rparr> \<and>
   boxes \<lparr>plot = [1, 2, 3], boxes = []\<rparr> = [] \<and>
   result_label (run_detection demo_fmt (demo_app [] ''abc'')) = zh_no_pests"
proof -
  have h0: "pest_data SimplePesticideApp_init = []"
    by (simp add: SimplePesticideApp_init_def)
  have h1: "model (demo_app [] ''abc'') = Some (demo_model [])"
    and h2: "current_img (demo_app [] ''abc'') = Some [1, 2, 3]"
    by (simp_all add: demo_app_def)
  have h3: "predict (demo_model []) None (Some [1, 2, 3]) = Inr \<lparr>plot = [1, 2, 3], boxes = []\<rparr>"
    by (simp add: demo_model_def)
  from no_pests_sentinel [of SimplePesticideApp_init demo_fmt "''3''"] h0
  have "result_label (area_text_changed demo_fmt ''3'' SimplePesticideApp_init) = zh_no_pests"
    by blast
  moreover from no_pests_sentinel
      [of "demo_app [] ''abc''" demo_fmt _ "demo_model []" "[1, 2, 3]" "\<lparr>plot = [1, 2, 3], boxes = []\<rparr>"] h1 h2 h3
  have "result_label (run_detection demo_fmt (demo_app [] ''abc'')) = zh_no_pests"
    by simp
  ultimately show ?thesis
    using h0 h1 h2 h3 by simp
qed

subsection \<open>A change of the area text\<close>

text \<open>
  C9. A change of the area text only stores the new text and rewrites the
  recommendation shown, which is computed from the records that are stored: the records
  stay as they are and no image is handed to the model.
\<close>

theorem area_change_keeps_records:
  "area_text_changed fmt1 t st =
     st\<lparr>area_input := t,
        result_label :=
          (if pest_data st = [] then zh_no_pests
           else join [CHR 0x0A] (concat (map (item_lines fmt1 (area_of_text t)) (pest_data st))))\<rparr> \<and>
   pest_data (area_text_changed fmt1 t st) = pest_data st \<and>
   inferences (area_text_changed fmt1 t st) = inferences st"
  by (simp add: area_text_changed_def update_recommendation_def Let_def)

theorem area_change_keeps_records_witness:
  "map (\<lambda>r. (english r, count r, base_dosage r))
     (pest_data (area_text_changed demo_fmt ''2'' (run_detection demo_fmt (demo_app demo_boxes [])))) =
     [(''rice-bug'', 2, 50), (''stem-borer'', 1, 60)] \<and>
   inferences (area_text_changed demo_fmt ''2'' (run_detection demo_fmt (demo_app demo_boxes []))) = [ [1, 2, 3] ]"
proof -
  have "map (\<lambda>r. (english r, count r, base_dosage r)) (pest_data (run_detection demo_fmt (demo_app demo_boxes []))) =
     [(''rice-bug'', 2, 50), (''stem-borer'', 1, 60)]"
    and "inferences (run_detection demo_fmt (demo_app demo_boxes [])) = [ [1, 2, 3] ]"
    by code_simp+
  with area_change_keeps_records [of demo_fmt "''2''" "run_detection demo_fmt (demo_app demo_boxes [])"]
  show ?thesis
    by simp
qed

section \<open>Properties of the streaming detection program\<close>

subsection \<open>Statistics of one frame\<close>

lemma sum_dict_set_bump:
  "sum_list (map snd (dict_set k (Suc (dict_get c k 0)) c)) = Suc (sum_list (map snd c))"
  by (induction c) (auto simp: dict_get_def)

lemma sum_count_boxes:
  "sum_list (map snd (fst (count_boxes nm bs (c, t)))) = sum_list (map snd c) + length bs"
  by (induction bs arbitrary: c t) (simp_all add: Let_def sum_dict_set_bump)

text \<open>
  C8. For every list of boxes, the statistics that \<open>extract_stats\<close> builds have
  \<open>total_objects\<close> equal to the number of boxes, and the counts of the class
  distribution add up to \<open>total_objects\<close>.
\<close>

theorem extract_stats_total:
  "total_objects (extract_stats w res) = length (boxes res) \<and>
   sum_list (dict_values (class_distribution (extract_stats w res))) = total_objects (extract_stats w res)"
proof -
  obtain counts total_conf
    where c: "count_boxes (names (worker_model w)) (boxes res) ([], 0) = (counts, total_conf)"
    by (cases "count_boxes (names (worker_model w)) (boxes res) ([], 0)")
  from sum_count_boxes [of "names (worker_model w)" "boxes res" "[]" 0] c
  have "sum_list (map snd counts) = length (boxes res)"
    by simp
  with c show ?thesis
    by (simp add: extract_stats_def dict_values_def)
qed

theorem extract_stats_total_witness:
  "class_distribution (extract_stats demo_worker \<lparr>plot = [], boxes = demo_boxes\<rparr>) =
     [(''rice-bug'', 2), (''stem-borer'', 1)] \<and>
   total_objects (extract_stats demo_worker \<lparr>plot = [], boxes = demo_boxes\<rparr>) = 3 \<and>
   length (boxes \<lparr>plot = [], boxes = demo_boxes\<rparr>) = 3 \<and>
   sum_list (dict_values (class_distribution (extract_stats demo_worker \<lparr>plot = [], boxes = demo_boxes\<rparr>))) = 3"
proof -
  have a: "class_distribution (extract_stats demo_worker \<lparr>plot = [], boxes = demo_boxes\<rparr>) =
     [(''rice-bug'', 2), (''stem-borer'', 1)]"
    by code_simp
  have b: "length (boxes \<lparr>plot = [], boxes = demo_boxes\<rparr>) = 3"
    by (simp add: demo_boxes_def)
  from extract_stats_total [of demo_worker "\<lparr>plot = [], boxes = demo_boxes\<rparr>"] a b show ?thesis
    by simp
qed

subsection \<open>A read that fails\<close>

lemma run_loop_failed_read:
  "run_loop w (ts @ Read None elapsed # rest) out = run_loop w ts out"
proof (induction ts arbitrary: out)
  case Nil
  show ?case by simp
next
  case (Cons t ts)
  show ?case
  proof (cases t)
    case Stop
    then show ?thesis by simp
  next
    case (Read r e)
    then show ?thesis
      by (cases r) (simp_all add: Cons.IH split: sum.splits)
  qed
qed

lemma run_loop_ends:
  "unhandled (run_loop w ts out) = None \<Longrightarrow>
   \<not> running (final (run_loop w ts out)) \<and> cap_released (run_loop w ts out)"
proof (induction ts arbitrary: out)
  case Nil
  show ?case by simp
next
  case (Cons t ts)
  show ?case
  proof (cases t)
    case Stop
    then show ?thesis by simp
  next
    case (Read r e)
    with Cons show ?thesis
      by (cases r) (auto split: sum.splits)
  qed
qed

text \<open>
  C4, as the source has it. When \<open>cap.read()\<close> reports failure, as it does for a frame
  that cannot be decoded, the loop clears \<open>running\<close> and ends: the run is the one of
  a stream that ends at this point, whatever frames would follow, and unless the model
  call raised before, \<open>running\<close> is cleared and the capture released.
\<close>

theorem failed_read_ends_run:
  "run w opened (ts @ Read None elapsed # rest) = run w opened ts \<and>
   (running w \<and> opened \<and> unhandled (run w opened (ts @ Read None elapsed # rest)) = None \<longrightarrow>
      \<not> running (final (run w opened (ts @ Read None elapsed # rest))) \<and>
      cap_released (run w opened (ts @ Read None elapsed # rest)))"
proof -
  have eq: "run w opened (ts @ Read None elapsed # rest) = run w opened ts"
    by (simp add: run_def run_loop_failed_read)
  have fin: "running w \<and> opened \<and> unhandled (run w opened ts) = None \<longrightarrow>
      \<not> running (final (run w opened ts)) \<and> cap_released (run w opened ts)"
    using run_loop_ends [of w ts "[]"] by (auto simp: run_def)
  show ?thesis
    unfolding eq by (rule conjI [OF refl fin])
qed

theorem failed_read_ends_run_witness:
  "running demo_worker \<and>
   unhandled (run demo_worker True ([Read (Some [1]) (1 / 20)] @ Read None (1 / 20) # [Read (Some [2]) (1 / 20)])) = None \<and>
   map fst (emitted (run demo_worker True [Read (Some [1]) (1 / 20)])) = [ [1] ] \<and>
   map fst (emitted (run demo_worker True ([Read (Some [1]) (1 / 20)] @ Read None (1 / 20) # [Read (Some [2]) (1 / 20)]))) = [ [1] ] \<and>
   \<not> running (final (run demo_worker True ([Read (Some [1]) (1 / 20)] @ Read None (1 / 20) # [Read (Some [2]) (1 / 20)])))"
proof -
  have a: "running demo_worker"
    by (simp add: demo_worker_def VideoWorker_init_def)
  have b: "unhandled (run demo_worker True ([Read (Some [1]) (1 / 20)] @ Read None (1 / 20) # [Read (Some [2]) (1 / 20)])) = None"
    by code_simp
  have c: "map fst (emitted (run demo_worker True [Read (Some [1]) (1 / 20)])) = [ [1] ]"
    by code_simp
  note inst = failed_read_ends_run
    [of demo_worker True "[Read (Some [1]) (1 / 20)]" "1 / 20" "[Read (Some [2]) (1 / 20)]"]
  from inst have d: "run demo_worker True ([Read (Some [1]) (1 / 20)] @ Read None (1 / 20) # [Read (Some [2]) (1 / 20)]) =
      run demo_worker True [Read (Some [1]) (1 / 20)]"
    by (rule conjunct1)
  from inst a b
  have e: "\<not> running (final (run demo_worker True ([Read (Some [1]) (1 / 20)] @ Read None (1 / 20) # [Read (Some [2]) (1 / 20)])))"
    by blast
  from c d have "map fst (emitted (run demo_worker True ([Read (Some [1]) (1 / 20)] @ Read None (1 / 20) # [Read (Some [2]) (1 / 20)]))) = [ [1] ]"
    by (simp only:)
  with a b c e show ?thesis
    by blast
qed

text \<open>
  The claim of the specification fails on a stream of a good frame, a failed read and
  another good frame: only the first frame is published and the run is over, whereas
  the same stream without the failed read publishes both frames.
\<close>

theorem corrupt_frame_counterexample:
  "map fst (emitted (run demo_worker True
     [Read (Some [1]) (1 / 20), Read None (1 / 20), Read (Some [2]) (1 / 20)])) = [ [1] ] \<and>
   \<not> running (final (run demo_worker True
     [Read (Some [1]) (1 / 20), Read None (1 / 20), Read (Some [2]) (1 / 20)])) \<and>
   cap_released (run demo_worker True
     [Read (Some [1]) (1 / 20), Read None (1 / 20), Read (Some [2]) (1 / 20)]) \<and>
   map fst (emitted (run demo_worker True
     [Read (Some [1]) (1 / 20), Read (Some [2]) (1 / 20)])) = [ [1], [2] ]"
  by code_simp

subsection \<open>The rate in the statistics\<close>

lemma run_loop_fps:
  "worker_fps w = None \<Longrightarrow> list_all (\<lambda>p. fps (snd p) = 0) out \<Longrightarrow>
   list_all (\<lambda>p. fps (snd p) = 0) (emitted (run_loop w ts out)) \<and>
   worker_fps (final (run_loop w ts out)) = None"
proof (induction ts arbitrary: out)
  case Nil
  then show ?case by simp
next
  case (Cons t ts)
  show ?case
  proof (cases t)
    case Stop
    with Cons.prems show ?thesis by simp
  next
    case (Read r e)
    show ?thesis
    proof (cases r)
      case None
      with Read Cons.prems show ?thesis by simp
    next
      case (Some frame)
      have "fps (extract_stats w res) = 0" for res
        using Cons.prems(1) by (simp add: extract_stats_def Let_def split: prod.splits)
      with Some Read Cons.prems Cons.IH show ?thesis
        by (auto split: sum.splits)
    qed
  qed
qed

text \<open>
  C6, as the source has it. Every pair that a worker publishes carries \<open>fps = 0\<close>,
  whatever time the turns take: \<open>__init__\<close> creates no attribute \<open>fps\<close>, \<open>run\<close>
  assigns none and reads no clock, so \<open>getattr(self, "fps", 0)\<close> is the default. In
  the mode for a single image no statistics are built and the statistics text stays.
\<close>

theorem published_fps_is_zero:
  "list_all (\<lambda>p. fps (snd p) = 0) (emitted (run (VideoWorker_init m src threshold) opened ts)) \<and>
   worker_fps (final (run (VideoWorker_init m src threshold) opened ts)) = None \<and>
   (process_single_image fmt2 env st = Inr st' \<longrightarrow> stats_text st' = stats_text st)"
proof -
  have w: "worker_fps (VideoWorker_init m src threshold) = None"
    by (simp add: VideoWorker_init_def)
  from run_loop_fps [OF w, of "[]" ts]
  have "list_all (\<lambda>p. fps (snd p) = 0) (emitted (run (VideoWorker_init m src threshold) opened ts)) \<and>
   worker_fps (final (run (VideoWorker_init m src threshold) opened ts)) = None"
    using w by (simp add: run_def)
  moreover have "process_single_image fmt2 env st = Inr st' \<longrightarrow> stats_text st' = stats_text st"
    by (auto simp: process_single_image_def show_message_def update_stats_def display_image_def
             split: option.splits if_splits sum.splits)
  ultimately show ?thesis
    by blast
qed

theorem published_fps_is_zero_witness:
  "map (\<lambda>p. fps (snd p)) (emitted (run (VideoWorker_init (demo_model demo_boxes) (Device 0) (3 / 10)) True
     [Read (Some [1]) (1 / 20), Read (Some [2]) (1 / 20)])) = [0, 0] \<and>
   list_all (\<lambda>p. fps (snd p) = 0) (emitted (run (VideoWorker_init (demo_model demo_boxes) (Device 0) (3 / 10)) True
     [Read (Some [1]) (1 / 20), Read (Some [2]) (1 / 20)]))"
proof -
  have "map (\<lambda>p. fps (snd p)) (emitted (run (VideoWorker_init (demo_model demo_boxes) (Device 0) (3 / 10)) True
     [Read (Some [1]) (1 / 20), Read (Some [2]) (1 / 20)])) = [0, 0]"
    by code_simp
  with published_fps_is_zero [of "demo_model demo_boxes" "Device 0" "3 / 10" True
      "[Read (Some [1]) (1 / 20), Read (Some [2]) (1 / 20)]"]
  show ?thesis
    by blast
qed

text \<open>
  The claim of the specification fails on a stream of two frames that take a twentieth
  of a second each: the rate measured from that time is 20, the rate published is 0.
\<close>

theorem measured_fps_counterexample:
  "map (fps \<circ> snd) (emitted (run demo_worker True
     [Read (Some [1]) (1 / 20), Read (Some [2]) (1 / 20)])) = [0, 0] \<and>
   spec_fps (1 / 20) = 20 \<and>
   (0::rat) \<noteq> spec_fps (1 / 20)"
  by code_simp

subsection \<open>Starting twice\<close>

lemma start_detection_streaming:
  assumes "det_model st = Some m" and "input_combo st \<noteq> 2"
    and "(if input_combo st = 0 then Some (Device 0) else map_option File (file_path st)) = Some src"
  shows "start_detection fmt2 env st =
     Inr (st\<lparr>start_btn_enabled := False, stop_btn_enabled := True, status_label := zh_detecting,
            worker := Some (VideoWorker_init m src (3 / 10)),
            thread_calls := thread_calls st @ [Start src]\<rparr>)"
  using assms by (simp add: start_detection_def Let_def)

lemma step_while_start_disabled:
  assumes "\<not> start_btn_enabled st" and "step fmt2 env st ev = Inr st'"
  shows "filter is_start (thread_calls st') = filter is_start (thread_calls st) \<and>
         (ev \<noteq> StopClicked \<longrightarrow> \<not> start_btn_enabled st')"
proof (cases ev)
  case (LoadModelClicked file_name outcome)
  with assms show ?thesis
    by (auto simp: load_model_def show_message_def split: load_outcome.splits if_splits)
next
  case (InputSelected i)
  with assms show ?thesis by (auto split: if_splits)
next
  case (SelectFileClicked file_name)
  with assms show ?thesis by (auto simp: select_input_file_def split: if_splits)
next
  case StartClicked
  with assms show ?thesis by (auto split: if_splits)
next
  case StopClicked
  with assms show ?thesis
    by (auto simp: stop_detection_def Let_def split: option.splits if_splits)
next
  case (SaveClicked file_name)
  with assms show ?thesis
    by (auto simp: save_result_def show_message_def Let_def split: option.splits if_splits)
next
  case (ThemeSelected i)
  with assms show ?thesis by (auto simp: change_theme_def show_message_def split: if_splits)
next
  case (FrameReady frame stats)
  with assms show ?thesis
    by (auto simp: display_image_and_stats_def update_stats_def display_image_def split: if_splits)
next
  case WindowClosed
  with assms show ?thesis by (auto simp: closeEvent_def split: option.splits if_splits)
qed

text \<open>
  C3, as the source has it. \<open>start_detection\<close> has no failure for a stream that is
  already running. A start in a streaming mode (a model is loaded, and a file was
  selected if the source is a video file) disables the start button, enables the stop
  button and starts one worker; called again in that state it starts a second worker
  without any message. What keeps the user from a second start is the button: while it
  is disabled a click on it changes nothing, no event starts a worker, and only the
  stop button enables it again.
\<close>

theorem start_gated_by_button:
  "(det_model st = Some m \<and> input_combo st \<noteq> 2 \<and> (input_combo st = 0 \<or> file_path st \<noteq> None) \<longrightarrow>
      (\<exists>st' src. start_detection fmt2 env st = Inr st' \<and>
          \<not> start_btn_enabled st' \<and> stop_btn_enabled st' \<and>
          thread_calls st' = thread_calls st @ [Start src] \<and> messages st' = messages st \<and>
          step fmt2 env st' StartClicked = Inr st' \<and>
          (\<exists>st''. start_detection fmt2 env st' = Inr st'' \<and>
             thread_calls st'' = thread_calls st @ [Start src, Start src] \<and>
             messages st'' = messages st))) \<and>
   (\<not> start_btn_enabled st1 \<and> step fmt2 env st1 ev = Inr st2 \<longrightarrow>
      filter is_start (thread_calls st2) = filter is_start (thread_calls st1) \<and>
      (ev \<noteq> StopClicked \<longrightarrow> \<not> start_btn_enabled st2))"
proof -
  have first: "\<exists>st' src. start_detection fmt2 env st = Inr st' \<and>
          \<not> start_btn_enabled st' \<and> stop_btn_enabled st' \<and>
          thread_calls st' = thread_calls st @ [Start src] \<and> messages st' = messages st \<and>
          step fmt2 env st' StartClicked = Inr st' \<and>
          (\<exists>st''. start_detection fmt2 env st' = Inr st'' \<and>
             thread_calls st'' = thread_calls st @ [Start src, Start src] \<and>
             messages st'' = messages st)"
    if m: "det_model st = Some m" and c: "input_combo st \<noteq> 2"
      and f: "input_combo st = 0 \<or> file_path st \<noteq> None"
  proof -
    from f obtain src
      where src: "(if input_combo st = 0 then Some (Device 0) else map_option File (file_path st)) = Some src"
      by (cases "input_combo st = 0") auto
    let ?st' = "st\<lparr>start_btn_enabled := False, stop_btn_enabled := True, status_label := zh_detecting,
            worker := Some (VideoWorker_init m src (3 / 10)),
            thread_calls := thread_calls st @ [Start src]\<rparr>"
    have a: "start_detection fmt2 env st = Inr ?st'"
      using m c src by (rule start_detection_streaming)
    have "det_model ?st' = Some m" and "input_combo ?st' \<noteq> 2"
      and "(if input_combo ?st' = 0 then Some (Device 0) else map_option File (file_path ?st')) = Some src"
      using m c src by (auto split: if_splits)
    from start_detection_streaming [OF this, of fmt2 env]
    have b: "\<exists>st''. start_detection fmt2 env ?st' = Inr st'' \<and>
             thread_calls st'' = thread_calls st @ [Start src, Start src] \<and>
             messages st'' = messages st"
      by simp
    have "step fmt2 env ?st' StartClicked = Inr ?st'"
      by simp
    with a b show ?thesis
      by (intro exI [of _ ?st'] exI [of _ src]) simp
  qed
  from first step_while_start_disabled [of st1 fmt2 env ev st2] show ?thesis
    by blast
qed

theorem start_gated_by_button_witness:
  "det_model demo_loaded = Some (demo_model demo_boxes) \<and> input_combo demo_loaded \<noteq> 2 \<and>
   input_combo demo_loaded = 0 \<and>
   map_sum id (\<lambda>s. (start_btn_enabled s, thread_calls s))
     (start_detection demo_fmt2 demo_env demo_loaded) = Inr (False, [Start (Device 0)]) \<and>
   (case start_detection demo_fmt2 demo_env demo_loaded of
      Inl e \<Rightarrow> Inl e
    | Inr s \<Rightarrow> map_sum id thread_calls (step demo_fmt2 demo_env s StartClicked)) =
     Inr [Start (Device 0)] \<and>
   (\<exists>st'. start_detection demo_fmt2 demo_env demo_loaded = Inr st' \<and> \<not> start_btn_enabled st')"
proof -
  have a: "det_model demo_loaded = Some (demo_model demo_boxes)"
    by (simp add: demo_loaded_def load_model_def show_message_def)
  have b: "input_combo demo_loaded = 0"
    by (simp add: demo_loaded_def load_model_def show_message_def YOLODetector_init_def)
  have c: "map_sum id (\<lambda>s. (start_btn_enabled s, thread_calls s))
     (start_detection demo_fmt2 demo_env demo_loaded) = Inr (False, [Start (Device 0)])"
    by code_simp
  have d: "(case start_detection demo_fmt2 demo_env demo_loaded of
      Inl e \<Rightarrow> Inl e
    | Inr s \<Rightarrow> map_sum id thread_calls (step demo_fmt2 demo_env s StartClicked)) =
     Inr [Start (Device 0)]"
    by code_simp
  from b have b2: "input_combo demo_loaded \<noteq> 2"
    by simp
  from start_gated_by_button [of demo_loaded "demo_model demo_boxes" demo_fmt2 demo_env] a b b2
  have "\<exists>st'. start_detection demo_fmt2 demo_env demo_loaded = Inr st' \<and> \<not> start_btn_enabled st'"
    by blast
  with a b b2 c d show ?thesis
    by blast
qed

text \<open>
  The claim of the specification fails on the window with a loaded model and the
  camera selected: the first call of \<open>start_detection\<close> returns and starts a worker on
  the camera; the second call, on the state that the first one left, returns as well,
  starts a second worker on the camera and shows no message (the only message is the
  one of the loading of the model).
\<close>

theorem second_start_counterexample:
  "isl (start_detection demo_fmt2 demo_env demo_loaded) = False \<and>
   thread_calls demo_started = [Start (Device 0)] \<and>
   isl (start_detection demo_fmt2 demo_env demo_started) = False \<and>
   thread_calls (projr (start_detection demo_fmt2 demo_env demo_started)) =
     [Start (Device 0), Start (Device 0)] \<and>
   messages (projr (start_detection demo_fmt2 demo_env demo_started)) =
     [(zh_success, zh_model_load_done, False)]"
  by code_simp

subsection \<open>The image that \<open>save_result\<close> would write\<close>

lemma step_last_image:
  assumes "step fmt2 env st ev = Inr st'"
  shows "last_image st' = last_image st \<and> (last_image st = None \<longrightarrow> written st' = written st)"
proof (cases ev)
  case (LoadModelClicked file_name outcome)
  with assms show ?thesis
    by (auto simp: load_model_def show_message_def split: load_outcome.splits if_splits)
next
  case (InputSelected i)
  with assms show ?thesis by (auto split: if_splits)
next
  case (SelectFileClicked file_name)
  with assms show ?thesis by (auto simp: select_input_file_def split: if_splits)
next
  case StartClicked
  with assms show ?thesis
    by (auto simp: start_detection_def process_single_image_def show_message_def update_stats_def
          display_image_def Let_def split: option.splits if_splits sum.splits)
next
  case StopClicked
  with assms show ?thesis
    by (auto simp: stop_detection_def Let_def split: option.splits if_splits)
next
  case (SaveClicked file_name)
  with assms show ?thesis
    by (auto simp: save_result_def show_message_def Let_def split: option.splits if_splits)
next
  case (ThemeSelected i)
  with assms show ?thesis by (auto simp: change_theme_def show_message_def split: if_splits)
next
  case (FrameReady frame stats)
  with assms show ?thesis
    by (auto simp: display_image_and_stats_def update_stats_def display_image_def split: if_splits)
next
  case WindowClosed
  with assms show ?thesis by (auto simp: closeEvent_def split: option.splits if_splits)
qed

lemma reachable_last_image:
  "reachable fmt2 env st \<Longrightarrow> last_image st = None \<and> written st = []"
proof (induction rule: reachable.induct)
  case start
  show ?case by (simp add: YOLODetector_init_def)
next
  case (event st ev st')
  with step_last_image [of fmt2 env st ev st'] show ?case
    by simp
qed

lemma reachable_steps:
  "reachable fmt2 env st \<Longrightarrow> steps fmt2 env st evs = Inr st' \<Longrightarrow> reachable fmt2 env st'"
proof (induction evs arbitrary: st)
  case Nil
  then show ?case by simp
next
  case (Cons ev evs)
  then show ?case
    by (auto split: sum.splits intro: reachable.event)
qed

text \<open>
  C10. No event assigns the attribute \<open>last_image\<close>. So in every state that the
  window can reach the attribute does not exist, \<open>save_result\<close> shows the warning
  that there is no result to save and returns, and no image file has been or is written.
\<close>

theorem last_image_never_assigned:
  "(step fmt2 env st0 ev = Inr st1 \<longrightarrow> last_image st1 = last_image st0) \<and>
   (reachable fmt2 env st \<longrightarrow>
      last_image st = None \<and> written st = [] \<and>
      save_result env file_name st = Inr (show_message zh_warning zh_nothing_to_save True st) \<and>
      written (show_message zh_warning zh_nothing_to_save True st) = [])"
proof -
  have "step fmt2 env st0 ev = Inr st1 \<longrightarrow> last_image st1 = last_image st0"
    using step_last_image [of fmt2 env st0 ev st1] by blast
  moreover have "last_image st = None \<and> written st = [] \<and>
      save_result env file_name st = Inr (show_message zh_warning zh_nothing_to_save True st) \<and>
      written (show_message zh_warning zh_nothing_to_save True st) = []"
    if "reachable fmt2 env st"
    using reachable_last_image [OF that] by (simp add: save_result_def show_message_def)
  ultimately show ?thesis
    by blast
qed

theorem last_image_never_assigned_witness:
  "isl (steps demo_fmt2 demo_env YOLODetector_init demo_events) = False \<and>
   reachable demo_fmt2 demo_env (projr (steps demo_fmt2 demo_env YOLODetector_init demo_events)) \<and>
   map_sum id (\<lambda>s. (written s, last (messages s)))
     (save_result demo_env ''out.jpg'' (projr (steps demo_fmt2 demo_env YOLODetector_init demo_events))) =
     Inr ([], (zh_warning, zh_nothing_to_save, True))"
proof -
  let ?r = "steps demo_fmt2 demo_env YOLODetector_init demo_events"
  have a: "isl ?r = False"
    by code_simp
  then have "?r = Inr (projr ?r)"
    by (cases ?r) simp_all
  with reachable_steps [OF reachable.start, of demo_fmt2 demo_env demo_events "projr ?r"]
  have b: "reachable demo_fmt2 demo_env (projr ?r)"
    by simp
  from last_image_never_assigned [of demo_fmt2 demo_env _ _ _ "projr ?r" "''out.jpg''"] b
  have "save_result demo_env ''out.jpg'' (projr ?r) =
      Inr (show_message zh_warning zh_nothing_to_save True (projr ?r))"
    and "written (show_message zh_warning zh_nothing_to_save True (projr ?r)) = []"
    by blast+
  then have "map_sum id (\<lambda>s. (written s, last (messages s))) (save_result demo_env ''out.jpg'' (projr ?r)) =
     Inr ([], (zh_warning, zh_nothing_to_save, True))"
    by (simp add: show_message_def)
  with a b show ?thesis
    by blast
qed

end
